theory Spec2Isabelle
  imports Complex_Main
begin

section \<open>JavaScript strings\<close>

text \<open>
  A JavaScript string is a sequence of UTF-16 code units. It is modelled as \<open>string\<close>,
  one \<open>char\<close> per code unit, for the strings whose code units all lie below 256 and
  whose results under the methods called do so too. The library methods the services
  call are written out as list functions.
\<close>

definition startsWith :: "string \<Rightarrow> string \<Rightarrow> bool" where
  \<comment> \<open>\<open>s.startsWith(p)\<close>\<close>
  "startsWith s p = (take (length p) s = p)"

definition substring :: "string \<Rightarrow> nat \<Rightarrow> string" where
  \<comment> \<open>\<open>s.substring(n)\<close> with one argument\<close>
  "substring s n = drop n s"

fun split_str :: "string \<Rightarrow> char \<Rightarrow> string list" where
  \<comment> \<open>\<open>s.split(sep)\<close> for a one-character separator; the empty string gives one empty piece\<close>
  "split_str [] sep = [[]]"
| "split_str (c # s) sep =
     (if c = sep then [] # split_str s sep
      else (case split_str s sep of [] \<Rightarrow> [[c]] | l # ls \<Rightarrow> (c # l) # ls))"

fun join_str :: "string list \<Rightarrow> string \<Rightarrow> string" where
  \<comment> \<open>\<open>xs.join(sep)\<close>\<close>
  "join_str [] sep = []"
| "join_str [x] sep = x"
| "join_str (x # y # ys) sep = x @ sep @ join_str (y # ys) sep"

definition isWhiteSpace :: "char \<Rightarrow> bool" where
  \<comment> \<open>the code units below 256 that \<open>trim\<close> strips: TAB, LF, VT, FF, CR, SP, NBSP\<close>
  "isWhiteSpace c = (c \<in> {CHR 0x09, CHR 0x0A, CHR 0x0B, CHR 0x0C, CHR 0x0D, CHR 0x20, CHR 0xA0})"

definition trim :: "string \<Rightarrow> string" where
  "trim s = rev (dropWhile isWhiteSpace (rev (dropWhile isWhiteSpace s)))"

fun includes_str :: "string \<Rightarrow> string \<Rightarrow> bool" where
  \<comment> \<open>\<open>s.includes(p)\<close>\<close>
  "includes_str [] p = (p = [])"
| "includes_str (c # s) p = (startsWith (c # s) p \<or> includes_str s p)"

definition toLowerCase_char :: "char \<Rightarrow> char" where
  \<comment> \<open>below 256 the letters with a lower case are A to Z and U+00C0 to U+00DE but U+00D7\<close>
  "toLowerCase_char c =
     (let n = (of_char c :: nat)
      in if (65 \<le> n \<and> n \<le> 90) \<or> (192 \<le> n \<and> n \<le> 222 \<and> n \<noteq> 215)
         then char_of (n + 32) else c)"

definition toLowerCase :: "string \<Rightarrow> string" where
  "toLowerCase s = map toLowerCase_char s"

definition toUpperCase_units :: "char \<Rightarrow> string" where
  \<comment> \<open>the capital of one code unit: a to z and U+00E0 to U+00FE but U+00F7 have theirs 32
      below, and U+00DF has the two letters SS. The capitals of U+00B5 and U+00FF lie
      above U+00FF; these two are outside the modelled strings and are left as they are\<close>
  "toUpperCase_units c =
     (let n = (of_char c :: nat)
      in if (97 \<le> n \<and> n \<le> 122) \<or> (224 \<le> n \<and> n \<le> 254 \<and> n \<noteq> 247)
         then [char_of (n - 32)]
         else if n = 223 then ''SS'' else [c])"

definition toUpperCase :: "string \<Rightarrow> string" where
  "toUpperCase s = concat (map toUpperCase_units s)"

definition extname :: "string \<Rightarrow> string" where
  \<comment> \<open>\<open>path.extname\<close> (POSIX): from the last dot of the last path component, unless that
      dot starts the component or the component is \<open>..\<close>\<close>
  "extname p =
     (let trimmed = rev (dropWhile (\<lambda>c. c = CHR ''/'') (rev p));
          base = rev (takeWhile (\<lambda>c. c \<noteq> CHR ''/'') (rev trimmed));
          ext = rev (takeWhile (\<lambda>c. c \<noteq> CHR ''.'') (rev base));
          stem = take (length base - length ext - 1) base
      in if CHR ''.'' \<notin> set base \<or> stem = [] \<or> base = ''..'' then []
         else CHR ''.'' # ext)"

fun show_nat :: "nat \<Rightarrow> string" where
  \<comment> \<open>a number in a template literal: the decimal digits\<close>
  "show_nat n =
     (if n < 10 then [char_of (48 + n)] else show_nat (n div 10) @ [char_of (48 + n mod 10)])"

text \<open>
  A thrown \<open>new Error(message)\<close> is the value \<open>Error message\<close>; a function that can
  throw returns \<open>js_error + 'a\<close>.
\<close>

datatype js_error = Error string

section \<open>Export service: Markdown to DOCX\<close>

text \<open>
  The objects of the \<open>docx\<close> library that \<open>markdownToDOCX\<close> builds are records of the
  options passed to their constructors; an option that is not passed is \<open>None\<close>.
\<close>

datatype HeadingLevel =
  HEADING_1 | HEADING_2 | HEADING_3 | HEADING_4 | HEADING_5 | HEADING_6

record TextRun =
  run_text :: string
  font :: string
  run_size :: nat

record Paragraph =
  text_opt :: "string option"
  heading :: "HeadingLevel option"
  para_children :: "TextRun list"
  spacing_before :: "nat option"
  spacing_after :: "nat option"
  indent_left :: "nat option"

record Section =
  properties :: unit
  sect_children :: "Paragraph list"

record Document =
  sections :: "Section list"

definition code_paragraph :: "string list \<Rightarrow> Paragraph" where
  \<comment> \<open>the paragraph pushed at the closing fence\<close>
  "code_paragraph codeBlockContent =
     \<lparr>text_opt = None, heading = None,
      para_children =
        [\<lparr>run_text = join_str codeBlockContent [CHR 0x0A], font = ''Courier New'', run_size = 20\<rparr>],
      spacing_before = Some 200, spacing_after = Some 200, indent_left = None\<rparr>"

definition heading_paragraph :: "HeadingLevel \<Rightarrow> nat \<Rightarrow> string \<Rightarrow> Paragraph" where
  "heading_paragraph lvl before txt =
     \<lparr>text_opt = Some txt, heading = Some lvl, para_children = [],
      spacing_before = Some before, spacing_after = Some 200, indent_left = None\<rparr>"

definition blockquote_paragraph :: "string \<Rightarrow> Paragraph" where
  "blockquote_paragraph txt =
     \<lparr>text_opt = Some txt, heading = None, para_children = [],
      spacing_before = Some 200, spacing_after = Some 200, indent_left = Some 720\<rparr>"

definition empty_paragraph :: Paragraph where
  "empty_paragraph =
     \<lparr>text_opt = None, heading = None, para_children = [],
      spacing_before = Some 200, spacing_after = None, indent_left = None\<rparr>"

definition regular_paragraph :: "string \<Rightarrow> Paragraph" where
  "regular_paragraph txt =
     \<lparr>text_opt = Some txt, heading = None, para_children = [],
      spacing_before = Some 200, spacing_after = Some 200, indent_left = None\<rparr>"

definition line_paragraph :: "string \<Rightarrow> Paragraph" where
  \<comment> \<open>the \<open>if\<close>/\<open>else if\<close> chain of the loop body, for a line outside a code block\<close>
  "line_paragraph line =
     (if startsWith line ''# '' then heading_paragraph HEADING_1 400 (substring line 2)
      else if startsWith line ''## '' then heading_paragraph HEADING_2 300 (substring line 3)
      else if startsWith line ''### '' then heading_paragraph HEADING_3 200 (substring line 4)
      else if startsWith line ''#### '' then heading_paragraph HEADING_4 200 (substring line 5)
      else if startsWith line ''##### '' then heading_paragraph HEADING_5 200 (substring line 6)
      else if startsWith line ''###### '' then heading_paragraph HEADING_6 200 (substring line 7)
      else if startsWith line ''> '' then blockquote_paragraph (substring line 2)
      else if trim line = [] then empty_paragraph
      else regular_paragraph line)"

record docx_state =
  inCodeBlock :: bool
  codeBlockContent :: "string list"
  children :: "Paragraph list"

definition docx_step :: "docx_state \<Rightarrow> string \<Rightarrow> docx_state" where
  \<comment> \<open>one iteration of the \<open>for\<close> loop over the lines\<close>
  "docx_step st line =
     (if startsWith line ''```'' then
        (if inCodeBlock st
         then st\<lparr>children := children st @ [code_paragraph (codeBlockContent st)],
                 inCodeBlock := False, codeBlockContent := []\<rparr>
         else st\<lparr>inCodeBlock := True\<rparr>)
      else if inCodeBlock st then st\<lparr>codeBlockContent := codeBlockContent st @ [line]\<rparr>
      else st\<lparr>children := children st @ [line_paragraph line]\<rparr>)"

definition docx_init :: docx_state where
  "docx_init = \<lparr>inCodeBlock = False, codeBlockContent = [], children = []\<rparr>"

definition docx_children :: "string list \<Rightarrow> Paragraph list" where
  \<comment> \<open>the \<open>children\<close> array when the loop over \<open>lines\<close> ends\<close>
  "docx_children lines = children (foldl docx_step docx_init lines)"

definition markdownToDOCX :: "string \<Rightarrow> Document" where
  "markdownToDOCX markdown =
     \<lparr>sections =
        [\<lparr>properties = (), sect_children = docx_children (split_str markdown (CHR 0x0A))\<rparr>]\<rparr>"

definition is_fence :: "string \<Rightarrow> bool" where
  "is_fence line = startsWith line ''```''"

text \<open>
  What a paragraph is, read off its options: a heading with its level and text, a
  literal-text paragraph (one built from text runs), an indented paragraph, an empty
  paragraph or a plain paragraph.
\<close>

datatype element =
  Heading nat string | Literal string | Indented string | Empty | Plain string

fun level_number :: "HeadingLevel \<Rightarrow> nat" where
  "level_number HEADING_1 = 1"
| "level_number HEADING_2 = 2"
| "level_number HEADING_3 = 3"
| "level_number HEADING_4 = 4"
| "level_number HEADING_5 = 5"
| "level_number HEADING_6 = 6"

definition element_of :: "Paragraph \<Rightarrow> element" where
  "element_of p =
     (case heading p of
        Some lvl \<Rightarrow> Heading (level_number lvl) (case text_opt p of None \<Rightarrow> [] | Some t \<Rightarrow> t)
      | None \<Rightarrow>
         (case para_children p of
            r # rs \<Rightarrow> Literal (concat (map run_text (r # rs)))
          | [] \<Rightarrow>
             (case text_opt p of
                None \<Rightarrow> Empty
              | Some t \<Rightarrow> (case indent_left p of Some i \<Rightarrow> Indented t | None \<Rightarrow> Plain t))))"

text \<open>
  The line rules as the specification words them: one to six \<open>#\<close> and a space make a
  heading of that level whose text is the rest of the line; \<open>>\<close> and a space make an
  indented paragraph; a line of white space only makes an empty paragraph; any other
  line makes a plain paragraph with the line unchanged.
\<close>

definition heading_marker :: "string \<Rightarrow> (nat \<times> string) option" where
  "heading_marker line =
     (let n = length (takeWhile (\<lambda>c. c = CHR ''#'') line)
      in if 1 \<le> n \<and> n \<le> 6 \<and> take 1 (drop n line) = '' ''
         then Some (n, drop (Suc n) line) else None)"

definition spec_element :: "string \<Rightarrow> element" where
  "spec_element line =
     (case heading_marker line of
        Some (n, title) \<Rightarrow> Heading n title
      | None \<Rightarrow>
          if take 2 line = ''> '' then Indented (drop 2 line)
          else if (\<forall>c\<in>set line. isWhiteSpace c) then Empty
          else Plain line)"

definition document_elements :: "Document \<Rightarrow> element list" where
  "document_elements d = concat (map (\<lambda>s. map element_of (sect_children s)) (sections d))"

text \<open>
  The structure the rules speak of. A block is a line that is no fence line, or a
  fenced block: an opening fence line, lines none of which is a fence line, and a
  closing fence line. A line is rendered by the line rules; a fenced block makes one
  literal-text paragraph of the lines between its fences, joined by line feeds, and
  its fence lines make nothing.
\<close>

datatype block = Line string | Fenced string "string list" string

fun block_lines :: "block \<Rightarrow> string list" where
  "block_lines (Line l) = [l]"
| "block_lines (Fenced opening body closing) = opening # body @ [closing]"

fun well_formed :: "block \<Rightarrow> bool" where
  "well_formed (Line l) = (\<not> is_fence l)"
| "well_formed (Fenced opening body closing) =
     (is_fence opening \<and> list_all (\<lambda>l. \<not> is_fence l) body \<and> is_fence closing)"

fun render_block :: "block \<Rightarrow> element" where
  "render_block (Line l) = spec_element l"
| "render_block (Fenced opening body closing) = Literal (join_str body [CHR 0x0A])"

text \<open>
  What can follow the last block: nothing, or a fence line that no later fence line
  closes, with the lines after it.
\<close>

fun unclosed_tail :: "string list \<Rightarrow> bool" where
  "unclosed_tail [] = True"
| "unclosed_tail (l # ls) = (is_fence l \<and> list_all (\<lambda>x. \<not> is_fence x) ls)"
section \<open>Export service: files\<close>

definition normalize_step :: "bool \<Rightarrow> string list \<Rightarrow> string \<Rightarrow> string list" where
  \<comment> \<open>one path segment in \<open>path.normalize\<close>: the segments kept so far, and the next one\<close>
  "normalize_step allowAboveRoot kept seg =
     (if seg = [] \<or> seg = ''.'' then kept
      else if seg = ''..'' then
        (if kept \<noteq> [] \<and> last kept \<noteq> ''..'' then butlast kept
         else if allowAboveRoot then kept @ [''..''] else kept)
      else kept @ [seg])"

definition normalize :: "string \<Rightarrow> string" where
  \<comment> \<open>\<open>path.normalize\<close> (POSIX)\<close>
  "normalize p =
     (if p = [] then ''.''
      else
        (let isAbsolute = (hd p = CHR ''/'');
             trailingSeparator = (last p = CHR ''/'');
             kept = foldl (normalize_step (\<not> isAbsolute)) [] (split_str p (CHR ''/''));
             res = join_str kept ''/''
         in if res = [] then (if isAbsolute then ''/'' else if trailingSeparator then ''./'' else ''.'')
            else (if isAbsolute then ''/'' else []) @ res @ (if trailingSeparator then ''/'' else [])))"

definition path_join :: "string \<Rightarrow> string \<Rightarrow> string" where
  \<comment> \<open>\<open>path.join(a, b)\<close> (POSIX): the arguments that are not empty, joined and normalized\<close>
  "path_join a b =
     (let joined = (if a = [] then b else if b = [] then a else a @ ''/'' @ b)
      in if joined = [] then ''.'' else normalize joined)"

text \<open>
  The file system is a state: the text of each file that holds text, by its path as the
  service writes it, and the paths a write succeeds on. \<open>writeFile\<close> with the encoding
  \<open>utf8\<close> stores the text or throws; \<open>statSync(path).size\<close> is the number of bytes of the
  UTF-8 encoding, two for a code unit from 128 to 255.
\<close>

record fs_state =
  file_content :: "string \<Rightarrow> string option"
  writable :: "string \<Rightarrow> bool"

definition writeFile :: "fs_state \<Rightarrow> string \<Rightarrow> string \<Rightarrow> js_error + fs_state" where
  "writeFile fs p txt =
     (if writable fs p then Inr (fs\<lparr>file_content := (file_content fs)(p \<mapsto> txt)\<rparr>)
      else Inl (Error (''EACCES: permission denied, open '' @ p)))"

definition utf8_length :: "string \<Rightarrow> nat" where
  "utf8_length txt = sum_list (map (\<lambda>c. if (of_char c :: nat) < 128 then 1 else 2) txt)"

definition statSync_size :: "fs_state \<Rightarrow> string \<Rightarrow> js_error + nat" where
  "statSync_size fs p =
     (case file_content fs p of
        None \<Rightarrow> Inl (Error (''ENOENT: no such file or directory, stat '' @ p))
      | Some txt \<Rightarrow> Inr (utf8_length txt))"

record ExportService =
  uploadDir :: string
  tempDir :: string

definition new_ExportService :: "string option \<Rightarrow> string option \<Rightarrow> ExportService" where
  \<comment> \<open>the directories, from \<open>UPLOAD_DIR\<close> and \<open>TEMP_DIR\<close>\<close>
  "new_ExportService upload temp =
     \<lparr>uploadDir = (case upload of None \<Rightarrow> ''./uploads'' | Some d \<Rightarrow> if d = [] then ''./uploads'' else d),
      tempDir = (case temp of None \<Rightarrow> ''./temp'' | Some d \<Rightarrow> if d = [] then ''./temp'' else d)\<rparr>"

definition html_before :: string where
  \<comment> \<open>the page template of \<open>markdownToHTML\<close> up to the converted text\<close>
  "html_before =
     ''\<newline>''
     @ ''      <!DOCTYPE html>\<newline>''
     @ ''      <html>\<newline>''
     @ ''      <head>\<newline>''
     @ ''        <meta charset='' @ [CHR 0x22] @ ''UTF-8'' @ [CHR 0x22] @ ''>\<newline>''
     @ ''        <title>Documentation</title>\<newline>''
     @ ''        <style>\<newline>''
     @ ''          body {\<newline>''
     @ ''            font-family: -apple-system, BlinkMacSystemFont, '' @ [CHR 0x27] @ ''Segoe UI'' @ [CHR 0x27] @ '', Roboto, sans-serif;\<newline>''
     @ ''            line-height: 1.6;\<newline>''
     @ ''            color: #333;\<newline>''
     @ ''            max-width: 800px;\<newline>''
     @ ''            margin: 0 auto;\<newline>''
     @ ''            padding: 20px;\<newline>''
     @ ''          }\<newline>''
     @ ''          h1, h2, h3, h4, h5, h6 {\<newline>''
     @ ''            color: #2c3e50;\<newline>''
     @ ''            margin-top: 1.5em;\<newline>''
     @ ''            margin-bottom: 0.5em;\<newline>''
     @ ''          }\<newline>''
     @ ''          h1 { font-size: 2em; border-bottom: 2px solid #eee; padding-bottom: 0.3em; }\<newline>''
     @ ''          h2 { font-size: 1.5em; border-bottom: 1px solid #eee; padding-bottom: 0.3em; }\<newline>''
     @ ''          h3 { font-size: 1.25em; }\<newline>''
     @ ''          code {\<newline>''
     @ ''            background-color: #f6f8fa;\<newline>''
     @ ''            padding: 0.2em 0.4em;\<newline>''
     @ ''            border-radius: 3px;\<newline>''
     @ ''            font-family: '' @ [CHR 0x27] @ ''SFMono-Regular'' @ [CHR 0x27] @ '', Consolas, '' @ [CHR 0x27] @ ''Liberation Mono'' @ [CHR 0x27] @ '', Menlo, monospace;\<newline>''
     @ ''            font-size: 0.9em;\<newline>''
     @ ''          }\<newline>''
     @ ''          pre {\<newline>''
     @ ''            background-color: #f6f8fa;\<newline>''
     @ ''            padding: 16px;\<newline>''
     @ ''            border-radius: 6px;\<newline>''
     @ ''            overflow-x: auto;\<newline>''
     @ ''          }\<newline>''
     @ ''          pre code {\<newline>''
     @ ''            background-color: transparent;\<newline>''
     @ ''            padding: 0;\<newline>''
     @ ''          }\<newline>''
     @ ''          blockquote {\<newline>''
     @ ''            border-left: 4px solid #ddd;\<newline>''
     @ ''            margin: 0;\<newline>''
     @ ''            padding-left: 1em;\<newline>''
     @ ''            color: #666;\<newline>''
     @ ''          }\<newline>''
     @ ''          table {\<newline>''
     @ ''            border-collapse: collapse;\<newline>''
     @ ''            width: 100%;\<newline>''
     @ ''            margin: 1em 0;\<newline>''
     @ ''          }\<newline>''
     @ ''          th, td {\<newline>''
     @ ''            border: 1px solid #ddd;\<newline>''
     @ ''            padding: 8px 12px;\<newline>''
     @ ''            text-align: left;\<newline>''
     @ ''          }\<newline>''
     @ ''          th {\<newline>''
     @ ''            background-color: #f6f8fa;\<newline>''
     @ ''            font-weight: 600;\<newline>''
     @ ''          }\<newline>''
     @ ''          img {\<newline>''
     @ ''            max-width: 100%;\<newline>''
     @ ''            height: auto;\<newline>''
     @ ''          }\<newline>''
     @ ''          a {\<newline>''
     @ ''            color: #0366d6;\<newline>''
     @ ''            text-decoration: none;\<newline>''
     @ ''          }\<newline>''
     @ ''          a:hover {\<newline>''
     @ ''            text-decoration: underline;\<newline>''
     @ ''          }\<newline>''
     @ ''        </style>\<newline>''
     @ ''      </head>\<newline>''
     @ ''      <body>\<newline>''
     @ ''        ''"

definition html_after :: string where
  "html_after =
     ''\<newline>''
     @ ''      </body>\<newline>''
     @ ''      </html>\<newline>''
     @ ''    ''"

definition markdownToHTML :: "(string \<Rightarrow> js_error + string) \<Rightarrow> string \<Rightarrow> js_error + string" where
  \<comment> \<open>\<open>marked\<close>, the Markdown converter of the library, is a parameter; it may throw\<close>
  "markdownToHTML marked markdown =
     (case marked markdown of
        Inl e \<Rightarrow> Inl e
      | Inr html \<Rightarrow> Inr (html_before @ html @ html_after))"

record export_descriptor =
  exp_format :: string
  exp_url :: string
  filePath :: string
  exp_size :: nat
  exp_note :: "string option"

definition exportToPDF ::
  "ExportService \<Rightarrow> (string \<Rightarrow> js_error + string) \<Rightarrow> fs_state \<Rightarrow> string \<Rightarrow> string
     \<Rightarrow> (js_error + export_descriptor) \<times> fs_state" where
  "exportToPDF svc marked fs content filename =
     (case markdownToHTML marked content of
        Inl e \<Rightarrow> (Inl (Error ''Failed to export to PDF''), fs)
      | Inr htmlContent \<Rightarrow>
          (let htmlPath = path_join (uploadDir svc) (filename @ ''.html'')
           in case writeFile fs htmlPath htmlContent of
                Inl e \<Rightarrow> (Inl (Error ''Failed to export to PDF''), fs)
              | Inr fs' \<Rightarrow>
                  (case statSync_size fs' htmlPath of
                     Inl e \<Rightarrow> (Inl (Error ''Failed to export to PDF''), fs')
                   | Inr n \<Rightarrow>
                       (Inr \<lparr>exp_format = ''pdf'',
                             exp_url = ''/uploads/'' @ filename @ ''.html'',
                             filePath = htmlPath, exp_size = n,
                             exp_note = Some ''HTML file generated. Use browser print to PDF or a PDF service.''\<rparr>,
                        fs'))))"

definition example_export :: ExportService where
  "example_export = new_ExportService None None"

definition example_marked :: "string \<Rightarrow> js_error + string" where
  \<comment> \<open>a converter for the examples: the text as one paragraph\<close>
  "example_marked markdown = Inr (''<p>'' @ markdown @ ''</p>\<newline>'')"

definition empty_fs :: fs_state where
  "empty_fs = \<lparr>file_content = (\<lambda>p. None), writable = (\<lambda>p. True)\<rparr>"

section \<open>GitHub service\<close>

fun replace_first :: "string \<Rightarrow> string \<Rightarrow> string \<Rightarrow> string" where
  \<comment> \<open>\<open>s.replace(pat, rep)\<close> for a string pattern: the first occurrence only\<close>
  "replace_first [] pat rep = (if pat = [] then rep else [])"
| "replace_first (c # s) pat rep =
     (if startsWith (c # s) pat then rep @ drop (length pat) (c # s)
      else c # replace_first s pat rep)"

text \<open>
  \<open>parseGitHubUrl\<close> matches its argument against the regular expression
  \<^verbatim>\<open>/github\.com\/([^\/]+)\/([^\/]+)(?:\/tree\/([^\/]+))?/\<close>.
  \<open>match_here\<close> is the match attempted at one position: the literal, then the two
  greedy groups of characters other than \<open>/\<close> with a \<open>/\<close> between them, then the
  optional \<open>/tree/\<close> group. \<open>regexp_match\<close> tries the positions from left to right, as
  \<open>String.prototype.match\<close> does; its result holds the three groups.
\<close>

definition notSlash :: "char \<Rightarrow> bool" where
  "notSlash c = (c \<noteq> CHR ''/'')"

record parsed_url =
  owner :: string
  repo :: string
  branch :: string

definition tree_segment :: "string \<Rightarrow> string option" where
  "tree_segment rest =
     (if startsWith rest ''/tree/'' \<and> takeWhile notSlash (drop 6 rest) \<noteq> []
      then Some (takeWhile notSlash (drop 6 rest)) else None)"

definition match_here :: "string \<Rightarrow> (string \<times> string \<times> string option) option" where
  "match_here s =
     (if startsWith s ''github.com/'' then
        (let r1 = drop 11 s;
             g1 = takeWhile notSlash r1;
             r2 = dropWhile notSlash r1
         in if g1 = [] \<or> r2 = [] then None
            else
              (let r3 = tl r2;
                   g2 = takeWhile notSlash r3;
                   r4 = dropWhile notSlash r3
               in if g2 = [] then None else Some (g1, g2, tree_segment r4)))
      else None)"

fun regexp_match :: "string \<Rightarrow> (string \<times> string \<times> string option) option" where
  "regexp_match [] = match_here []"
| "regexp_match (c # s) =
     (case match_here (c # s) of Some m \<Rightarrow> Some m | None \<Rightarrow> regexp_match s)"

definition parseGitHubUrl :: "string \<Rightarrow> js_error + parsed_url" where
  "parseGitHubUrl repoUrl =
     (case regexp_match repoUrl of
        None \<Rightarrow> Inl (Error ''Invalid GitHub URL format'')
      | Some (g1, g2, g3) \<Rightarrow>
          Inr \<lparr>owner = g1, repo = replace_first g2 ''.git'' [],
               branch = (case g3 of None \<Rightarrow> ''main'' | Some b \<Rightarrow> b)\<rparr>)"


text \<open>
  \<open>arr.sort(compare)\<close>: the sort is stable (ECMAScript 2019), so for a comparator that
  orders the elements consistently the result is the one of insertion from the right,
  where an element goes before the first one it does not compare greater than.
\<close>

fun insert_by :: "('a \<Rightarrow> 'a \<Rightarrow> int) \<Rightarrow> 'a \<Rightarrow> 'a list \<Rightarrow> 'a list" where
  "insert_by compare x [] = [x]"
| "insert_by compare x (y # ys) =
     (if compare x y \<le> 0 then x # y # ys else y # insert_by compare x ys)"

definition sort_by :: "('a \<Rightarrow> 'a \<Rightarrow> int) \<Rightarrow> 'a list \<Rightarrow> 'a list" where
  "sort_by compare xs = foldr (insert_by compare) xs []"

text \<open>
  The library calls whose results the services only pass on are parameters: the
  collation of \<open>localeCompare\<close>, the decoding of a base64 payload as UTF-8 text, and
  \<open>JSON.parse\<close> (\<open>None\<close> when it throws) into a type \<open>'j\<close> of parsed values.
\<close>

record 'j js_lib =
  localeCompare :: "string \<Rightarrow> string \<Rightarrow> int"
  base64_utf8 :: "string \<Rightarrow> string"
  JSON_parse :: "string \<Rightarrow> 'j option"

text \<open>
  An axios request resolves with the response's \<open>data\<close> (\<open>Inr\<close>) or rejects with an error
  (\<open>Inl\<close>): \<open>status\<close> is \<open>error.response?.status\<close>, \<open>api_message\<close> is
  \<open>error.response?.data?.error?.message\<close> and \<open>message\<close> is \<open>error.message\<close>.
\<close>

record http_error =
  status :: "nat option"
  api_message :: "string option"
  message :: string

text \<open>The fields the service reads of the responses of the GitHub REST API.\<close>

record repo_data =
  d_name :: string
  d_description :: "string option"
  d_language :: "string option"
  stargazers_count :: nat
  forks_count :: nat
  d_size :: nat
  default_branch :: string
  d_topics :: "string list option"
  d_homepage :: "string option"
  d_license :: "string option"

record tree_item =
  path :: string
  item_type :: string
  item_size :: "nat option"
  item_sha :: string
  item_url :: string

record tree_data =
  tree :: "tree_item list option"

record content_data =
  content :: "string option"

text \<open>
  The four requests of \<open>getRepositoryData\<close>, by their arguments:
  \<open>/repos/owner/repo\<close>, \<open>/repos/owner/repo/git/trees/branch?recursive=1\<close>,
  \<open>/repos/owner/repo/readme\<close> and \<open>/repos/owner/repo/contents/package.json?ref=branch\<close>.
\<close>

record github_api =
  get_repo :: "string \<Rightarrow> string \<Rightarrow> http_error + repo_data"
  get_tree :: "string \<Rightarrow> string \<Rightarrow> string \<Rightarrow> http_error + tree_data"
  get_readme :: "string \<Rightarrow> string \<Rightarrow> http_error + content_data"
  get_package :: "string \<Rightarrow> string \<Rightarrow> string \<Rightarrow> http_error + content_data"

record repoInfo =
  info_name :: string
  info_description :: "string option"
  info_language :: "string option"
  stars :: nat
  forks :: nat
  info_size :: nat
  defaultBranch :: string
  topics :: "string list"
  homepage :: "string option"
  license :: "string option"

definition getRepoInfo :: "github_api \<Rightarrow> string \<Rightarrow> string \<Rightarrow> js_error + repoInfo" where
  "getRepoInfo api own rep =
     (case get_repo api own rep of
        Inl error \<Rightarrow> Inl (Error ''Failed to fetch repository information'')
      | Inr d \<Rightarrow>
          Inr \<lparr>info_name = d_name d, info_description = d_description d,
               info_language = d_language d, stars = stargazers_count d,
               forks = forks_count d, info_size = d_size d,
               defaultBranch = default_branch d,
               topics = (case d_topics d of None \<Rightarrow> [] | Some ts \<Rightarrow> ts),
               homepage = d_homepage d, license = d_license d\<rparr>)"

text \<open>
  A look-up \<open>languageMap[ext]\<close> in an object literal also finds what the literal
  inherits. Of the inherited names only \<open>constructor\<close> and \<open>__proto__\<close> are in lower
  case; their values are objects, which are truthy and no strings.
\<close>

datatype map_value = Name string | Object_constructor | Object_prototype

definition lookup_object :: "(string \<times> string) list \<Rightarrow> string \<Rightarrow> map_value option" where
  "lookup_object literal key =
     (case map_of literal key of
        Some v \<Rightarrow> Some (Name v)
      | None \<Rightarrow>
          if key = ''constructor'' then Some Object_constructor
          else if key = ''__proto__'' then Some Object_prototype
          else None)"

definition or_else :: "map_value option \<Rightarrow> string \<Rightarrow> map_value" where
  \<comment> \<open>\<open>v || d\<close>: an absent value and the empty string are falsy\<close>
  "or_else v d = (case v of None \<Rightarrow> Name d | Some (Name []) \<Rightarrow> Name d | Some x \<Rightarrow> x)"

definition last_piece :: "string \<Rightarrow> string" where
  \<comment> \<open>\<open>filename.split('.').pop()\<close>\<close>
  "last_piece filename = last (split_str filename (CHR ''.''))"

definition github_languageMap :: "(string \<times> string) list" where
  "github_languageMap =
     [(''js'', ''JavaScript''), (''ts'', ''TypeScript''), (''jsx'', ''React JSX''),
      (''tsx'', ''React TSX''), (''py'', ''Python''), (''java'', ''Java''), (''cpp'', ''C++''),
      (''c'', ''C''), (''cs'', ''C#''), (''php'', ''PHP''), (''rb'', ''Ruby''), (''go'', ''Go''),
      (''rs'', ''Rust''), (''swift'', ''Swift''), (''kt'', ''Kotlin''), (''scala'', ''Scala''),
      (''html'', ''HTML''), (''css'', ''CSS''), (''scss'', ''SCSS''), (''sass'', ''Sass''),
      (''json'', ''JSON''), (''xml'', ''XML''), (''yaml'', ''YAML''), (''yml'', ''YAML''),
      (''md'', ''Markdown''), (''txt'', ''Text''), (''sql'', ''SQL''), (''sh'', ''Shell''),
      (''bash'', ''Bash'')]"

definition github_detectLanguage :: "string \<Rightarrow> map_value" where
  \<comment> \<open>\<open>GitHubService.detectLanguage\<close>\<close>
  "github_detectLanguage filename =
     or_else (lookup_object github_languageMap (toLowerCase (last_piece filename))) ''Unknown''"

record repo_file =
  name :: string
  file_size :: "nat option"
  sha :: string
  url :: string
  file_language :: map_value

definition getRepoFiles ::
  "('j, 'x) js_lib_scheme \<Rightarrow> github_api \<Rightarrow> string \<Rightarrow> string \<Rightarrow> string \<Rightarrow> repo_file list" where
  "getRepoFiles lib api own rep br =
     (case get_tree api own rep br of
        Inl error \<Rightarrow> []
      | Inr d \<Rightarrow>
          (case tree d of
             None \<Rightarrow> []
           | Some items \<Rightarrow>
               sort_by (\<lambda>a b. localeCompare lib (name a) (name b))
                 (map (\<lambda>item. \<lparr>name = path item, file_size = item_size item, sha = item_sha item,
                                url = item_url item,
                                file_language = github_detectLanguage (path item)\<rparr>)
                    (filter (\<lambda>item. item_type item = ''blob'') items))))"

definition getReadmeContent ::
  "('j, 'x) js_lib_scheme \<Rightarrow> github_api \<Rightarrow> string \<Rightarrow> string \<Rightarrow> string \<Rightarrow> string option" where
  \<comment> \<open>\<open>None\<close> is \<open>null\<close>; \<open>Buffer.from\<close> throws on a missing content\<close>
  "getReadmeContent lib api own rep br =
     (case get_readme api own rep of
        Inl error \<Rightarrow> None
      | Inr d \<Rightarrow> (case content d of None \<Rightarrow> None | Some c \<Rightarrow> Some (base64_utf8 lib c)))"

definition getPackageJson ::
  "('j, 'x) js_lib_scheme \<Rightarrow> github_api \<Rightarrow> string \<Rightarrow> string \<Rightarrow> string \<Rightarrow> 'j option" where
  "getPackageJson lib api own rep br =
     (case get_package api own rep br of
        Inl error \<Rightarrow> None
      | Inr d \<Rightarrow>
          (case content d of None \<Rightarrow> None | Some c \<Rightarrow> JSON_parse lib (base64_utf8 lib c)))"

text \<open>
  An object used as a dictionary of counters, \<open>obj[k] = (obj[k] || 0) + 1\<close>. Its keys
  here are extensions (empty or starting with a dot) and language names, so none is
  inherited or an array index, and \<open>Object.entries\<close> lists them in insertion order.
\<close>

fun count_up :: "(string \<times> nat) list \<Rightarrow> string \<Rightarrow> (string \<times> nat) list" where
  "count_up [] k = [(k, 1)]"
| "count_up ((k', n) # kvs) k =
     (if k' = k then (k', n + 1) # kvs else (k', n) # count_up kvs k)"

record analysis =
  language :: string
  framework :: string
  fileCount :: nat
  totalLines :: nat
  fileTypes :: "(string \<times> nat) list"
  hasTests :: bool
  hasDocs :: bool
  hasDocker :: bool
  hasCI :: bool

definition frameworkIndicators :: "(string \<times> string list) list" where
  "frameworkIndicators =
     [(''react'', [''package.json'', ''jsx'', ''tsx'']),
      (''vue'', [''vue.config.js'', ''.vue'']),
      (''angular'', [''angular.json'', ''ng-'']),
      (''express'', [''express'', ''app.js'', ''server.js'']),
      (''django'', [''manage.py'', ''settings.py'']),
      (''flask'', [''app.py'', ''flask'']),
      (''spring'', [''pom.xml'', ''build.gradle'']),
      (''laravel'', [''artisan'', ''composer.json'']),
      (''rails'', [''Gemfile'', ''config.ru'']),
      (''next'', [''next.config.js'']),
      (''nuxt'', [''nuxt.config.js'']),
      (''gatsby'', [''gatsby-config.js'']),
      (''svelte'', [''svelte.config.js'']),
      (''astro'', [''astro.config.mjs''])]"

definition ext_language :: "string \<Rightarrow> string option" where
  \<comment> \<open>the \<open>if\<close>/\<open>else if\<close> chain over the extension\<close>
  "ext_language ext =
     (if ext \<in> set [''.js'', ''.jsx'', ''.ts'', ''.tsx''] then Some ''JavaScript''
      else if ext \<in> set [''.py''] then Some ''Python''
      else if ext \<in> set [''.java''] then Some ''Java''
      else if ext \<in> set [''.cpp'', ''.c'', ''.h'', ''.hpp''] then Some ''C++''
      else if ext \<in> set [''.php''] then Some ''PHP''
      else if ext \<in> set [''.rb''] then Some ''Ruby''
      else if ext \<in> set [''.go''] then Some ''Go''
      else if ext \<in> set [''.rs''] then Some ''Rust''
      else if ext \<in> set [''.swift''] then Some ''Swift''
      else if ext \<in> set [''.kt''] then Some ''Kotlin''
      else if ext \<in> set [''.scala''] then Some ''Scala''
      else None)"

definition matching_framework :: "string \<Rightarrow> string option" where
  \<comment> \<open>the inner loop over \<open>Object.entries(frameworkIndicators)\<close>, left at the first entry
      one of whose indicators the file name includes\<close>
  "matching_framework fileName =
     map_option fst
       (find (\<lambda>(fw, indicators). list_ex (\<lambda>indicator. includes_str fileName indicator) indicators)
          frameworkIndicators)"

definition capitalize :: "string \<Rightarrow> string" where
  \<comment> \<open>\<open>framework.charAt(0).toUpperCase() + framework.slice(1)\<close>\<close>
  "capitalize fw = toUpperCase (take 1 fw) @ drop 1 fw"

definition analyze_file ::
  "analysis \<times> (string \<times> nat) list \<Rightarrow> repo_file \<Rightarrow> analysis \<times> (string \<times> nat) list" where
  \<comment> \<open>one iteration of the loop over the files; the second component is \<open>languageCounts\<close>\<close>
  "analyze_file st f =
     (let a0 = fst st; languageCounts = snd st;
          ext = toLowerCase (extname (name f));
          fileName = toLowerCase (name f);
          a1 = a0\<lparr>fileTypes := count_up (fileTypes a0) ext\<rparr>;
          languageCounts' =
            (case ext_language ext of
               Some l \<Rightarrow> count_up languageCounts l
             | None \<Rightarrow> languageCounts);
          a2 = (case matching_framework fileName of
                  Some fw \<Rightarrow> a1\<lparr>framework := capitalize fw\<rparr>
                | None \<Rightarrow> a1);
          a3 = (if includes_str fileName ''test'' \<or> includes_str fileName ''spec''
                then a2\<lparr>hasTests := True\<rparr> else a2);
          a4 = (if includes_str fileName ''readme'' \<or> includes_str fileName ''docs''
                   \<or> includes_str fileName ''documentation''
                then a3\<lparr>hasDocs := True\<rparr> else a3);
          a5 = (if includes_str fileName ''dockerfile'' \<or> includes_str fileName ''docker-compose''
                then a4\<lparr>hasDocker := True\<rparr> else a4);
          a6 = (if includes_str fileName ''.github/workflows'' \<or> includes_str fileName ''.gitlab-ci''
                   \<or> includes_str fileName ''travis''
                then a5\<lparr>hasCI := True\<rparr> else a5)
      in (a6, languageCounts'))"

definition by_count_desc :: "string \<times> nat \<Rightarrow> string \<times> nat \<Rightarrow> int" where
  \<comment> \<open>the comparator \<open>([,a], [,b]) => b - a\<close>\<close>
  "by_count_desc x y = int (snd y) - int (snd x)"

definition analyzeRepository :: "string \<Rightarrow> string \<Rightarrow> repo_file list \<Rightarrow> analysis" where
  "analyzeRepository own rep files =
     (let init = \<lparr>language = ''Unknown'', framework = ''Unknown'', fileCount = length files,
                   totalLines = 0, fileTypes = [], hasTests = False, hasDocs = False,
                   hasDocker = False, hasCI = False\<rparr>;
          st = foldl analyze_file (init, []) files;
          a = fst st; languageCounts = snd st
      in case sort_by by_count_desc languageCounts of
           [] \<Rightarrow> a
         | first # others \<Rightarrow> a\<lparr>language := fst first\<rparr>)"

record metadata = analysis +
  repoName :: string
  repoOwner :: string
  meta_branch :: string
  meta_url :: string

record 'j repoData =
  metadata :: metadata
  files :: "repo_file list"
  readme :: "string option"
  packageJson :: "'j option"
  repoInfo :: repoInfo

definition wrap_error :: "js_error \<Rightarrow> js_error" where
  \<comment> \<open>the \<open>catch\<close> of \<open>getRepositoryData\<close>\<close>
  "wrap_error e = (case e of Error m \<Rightarrow> Error (''Failed to fetch repository data: '' @ m))"

definition getRepositoryData ::
  "('j, 'x) js_lib_scheme \<Rightarrow> github_api \<Rightarrow> string \<Rightarrow> js_error + 'j repoData" where
  "getRepositoryData lib api repoUrl =
     (case parseGitHubUrl repoUrl of
        Inl e \<Rightarrow> Inl (wrap_error e)
      | Inr p \<Rightarrow>
          (case getRepoInfo api (owner p) (repo p) of
             Inl e \<Rightarrow> Inl (wrap_error e)
           | Inr info \<Rightarrow>
               (let fs = getRepoFiles lib api (owner p) (repo p) (branch p);
                    rd = getReadmeContent lib api (owner p) (repo p) (branch p);
                    pj = getPackageJson lib api (owner p) (repo p) (branch p);
                    a = analyzeRepository (owner p) (repo p) fs
                in Inr \<lparr>metadata =
                          \<lparr>language = language a, framework = framework a,
                           fileCount = fileCount a, totalLines = totalLines a,
                           fileTypes = fileTypes a, hasTests = hasTests a, hasDocs = hasDocs a,
                           hasDocker = hasDocker a, hasCI = hasCI a,
                           repoName = repo p, repoOwner = owner p, meta_branch = branch p,
                           meta_url = repoUrl\<rparr>,
                        files = fs, readme = rd, packageJson = pj, repoInfo = info\<rparr>)))"

definition blob :: "string \<Rightarrow> repo_file" where
  \<comment> \<open>the entry \<open>getRepoFiles\<close> makes of a tree item with this path, its other fields empty\<close>
  "blob p = \<lparr>name = p, file_size = None, sha = [], url = [], file_language = github_detectLanguage p\<rparr>"

text \<open>
  The indicator table read without the search: an indicator occurs in a file name when
  the name is some text, the indicator, some text; a table entry matches a file name
  when one of its indicators occurs in it; the first table match of a file name is the
  framework of the first entry, in the order of the table, that matches.
\<close>

definition occurs_in :: "string \<Rightarrow> string \<Rightarrow> bool" where
  "occurs_in p s \<longleftrightarrow> (\<exists>before after. s = before @ p @ after)"

definition entry_matches :: "string \<Rightarrow> string \<times> string list \<Rightarrow> bool" where
  "entry_matches fileName entry \<longleftrightarrow> (\<exists>indicator\<in>set (snd entry). occurs_in indicator fileName)"

definition first_table_match :: "string \<Rightarrow> string \<Rightarrow> bool" where
  "first_table_match fileName fw \<longleftrightarrow>
     (\<exists>earlier indicators later.
        frameworkIndicators = earlier @ (fw, indicators) # later
        \<and> entry_matches fileName (fw, indicators)
        \<and> (\<forall>entry\<in>set earlier. \<not> entry_matches fileName entry))"

definition no_table_match :: "string \<Rightarrow> bool" where
  "no_table_match fileName \<longleftrightarrow> (\<forall>entry\<in>set frameworkIndicators. \<not> entry_matches fileName entry)"

text \<open>
  The languages of a file list, in file order: one entry for each file whose extension
  the chain recognises. A language is the most frequent one, first encountered on a
  tie, when no language met before its first occurrence is as frequent and no language
  at all is more frequent.
\<close>

definition recognised :: "repo_file list \<Rightarrow> string list" where
  "recognised fs = List.map_filter (\<lambda>f. ext_language (toLowerCase (extname (name f)))) fs"

definition most_frequent_first :: "string list \<Rightarrow> string \<Rightarrow> bool" where
  "most_frequent_first ls l \<longleftrightarrow>
     (\<exists>before after. ls = before @ l # after \<and> l \<notin> set before
        \<and> (\<forall>m\<in>set before. count_list ls m < count_list ls l)
        \<and> (\<forall>m\<in>set after. count_list ls m \<le> count_list ls l))"

text \<open>The distinct elements of a list in the order of their first occurrences.\<close>

definition first_occ :: "string list \<Rightarrow> string list" where
  "first_occ ls = rev (remdups (rev ls))"

text \<open>A runtime and upstream answers for the examples.\<close>

fun compare_units :: "string \<Rightarrow> string \<Rightarrow> int" where
  \<comment> \<open>a collation for the examples: code unit by code unit\<close>
  "compare_units [] [] = 0"
| "compare_units [] (b # bs) = - 1"
| "compare_units (a # as) [] = 1"
| "compare_units (a # as) (b # bs) =
     (if (of_char a :: nat) < of_char b then - 1
      else if (of_char b :: nat) < of_char a then 1
      else compare_units as bs)"

definition example_lib :: "string js_lib" where
  \<comment> \<open>payloads are taken as decoded already and a manifest is kept as its text\<close>
  "example_lib = \<lparr>localeCompare = compare_units, base64_utf8 = (\<lambda>c. c), JSON_parse = Some\<rparr>"

definition example_repo :: "string option \<Rightarrow> repo_data" where
  "example_repo declared =
     \<lparr>d_name = ''demo'', d_description = None, d_language = declared, stargazers_count = 0,
      forks_count = 0, d_size = 1, default_branch = ''main'', d_topics = None,
      d_homepage = None, d_license = None\<rparr>"

definition blob_item :: "string \<Rightarrow> tree_item" where
  "blob_item p = \<lparr>path = p, item_type = ''blob'', item_size = None, item_sha = [], item_url = []\<rparr>"

definition rejected :: "nat \<Rightarrow> http_error" where
  "rejected code = \<lparr>status = Some code, api_message = None, message = ''Request failed''\<rparr>"

definition example_api :: "string option \<Rightarrow> string list \<Rightarrow> github_api" where
  \<comment> \<open>a repository with a declared language and these files, and no README or manifest\<close>
  "example_api declared paths =
     \<lparr>get_repo = (\<lambda>own rep. Inr (example_repo declared)),
      get_tree = (\<lambda>own rep br. Inr \<lparr>tree = Some (map blob_item paths)\<rparr>),
      get_readme = (\<lambda>own rep. Inl (rejected 404)),
      get_package = (\<lambda>own rep br. Inl (rejected 404))\<rparr>"

definition failing_api :: "nat \<Rightarrow> github_api" where
  \<comment> \<open>every request is rejected with this status\<close>
  "failing_api code =
     \<lparr>get_repo = (\<lambda>own rep. Inl (rejected code)),
      get_tree = (\<lambda>own rep br. Inl (rejected code)),
      get_readme = (\<lambda>own rep. Inl (rejected code)),
      get_package = (\<lambda>own rep br. Inl (rejected code))\<rparr>"

definition tree_failing_api :: "nat \<Rightarrow> github_api" where
  \<comment> \<open>the repository request succeeds and the three others are rejected with this status\<close>
  "tree_failing_api code =
     \<lparr>get_repo = (\<lambda>own rep. Inr (example_repo None)),
      get_tree = (\<lambda>own rep br. Inl (rejected code)),
      get_readme = (\<lambda>own rep. Inl (rejected code)),
      get_package = (\<lambda>own rep br. Inl (rejected code))\<rparr>"

section \<open>OpenRouter service\<close>

text \<open>
  A parsed manifest is a JSON value. Its numbers are the integers that print in plain
  decimal (below \<open>10^21\<close> in magnitude). \<open>js_truthy\<close> is the truth value a condition
  gives it and \<open>js_String\<close> the text a template literal makes of it: an array prints its
  elements joined by commas, \<open>null\<close> among them as nothing; an object prints as
  \<open>[object Object]\<close>, unless it has a key \<open>toString\<close> of its own, which hides the
  inherited method and makes the conversion throw a \<open>TypeError\<close>.
\<close>

datatype json =
  JNull | JBool bool | JNumber int | JString string | JArray "json list"
  | JObject "(string \<times> json) list"

definition js_truthy :: "json \<Rightarrow> bool" where
  "js_truthy j =
     (case j of
        JNull \<Rightarrow> False | JBool b \<Rightarrow> b | JNumber n \<Rightarrow> n \<noteq> 0 | JString s \<Rightarrow> s \<noteq> []
      | JArray xs \<Rightarrow> True | JObject kvs \<Rightarrow> True)"

definition show_int :: "int \<Rightarrow> string" where
  "show_int i = (if i < 0 then CHR ''-'' # show_nat (nat (- i)) else show_nat (nat i))"

fun join_results :: "(js_error + string) list \<Rightarrow> js_error + string" where
  \<comment> \<open>the texts joined by commas, or the first error\<close>
  "join_results [] = Inr []"
| "join_results [r] = r"
| "join_results (r # r' # rs) =
     (case r of
        Inl e \<Rightarrow> Inl e
      | Inr t \<Rightarrow> (case join_results (r' # rs) of Inl e \<Rightarrow> Inl e | Inr ts \<Rightarrow> Inr (t @ '','' @ ts)))"

fun js_String :: "json \<Rightarrow> js_error + string" where
  "js_String JNull = Inr ''null''"
| "js_String (JBool b) = Inr (if b then ''true'' else ''false'')"
| "js_String (JNumber n) = Inr (show_int n)"
| "js_String (JString s) = Inr s"
| "js_String (JArray xs) =
     join_results (map (\<lambda>x. if x = JNull then Inr [] else js_String x) xs)"
| "js_String (JObject kvs) =
     (if ''toString'' \<in> set (map fst kvs)
      then Inl (Error ''Cannot convert object to primitive value'')
      else Inr ''[object Object]'')"

text \<open>
  What the service leaves to the runtime is a parameter: the text \<open>formatFileSize\<close>
  computes in floating point for a size that is not zero, and the message of the
  \<open>TypeError\<close> for reading a property of \<open>undefined\<close>.
\<close>

record js_text =
  size_text :: "nat \<Rightarrow> string"
  undefined_read_message :: string

record api_client =
  apiKey :: string
  baseURL :: string

record openrouter = api_client +
  FRONTEND_URL :: "string option"

definition new_OpenRouterService ::
  "string option \<Rightarrow> string option \<Rightarrow> string option \<Rightarrow> js_error + openrouter" where
  \<comment> \<open>the constructor, from \<open>OPENROUTER_API_KEY\<close>, \<open>OPENROUTER_BASE_URL\<close> and \<open>FRONTEND_URL\<close>\<close>
  "new_OpenRouterService key base frontend =
     (case key of
        None \<Rightarrow> Inl (Error ''OPENROUTER_API_KEY is required'')
      | Some k \<Rightarrow>
          if k = [] then Inl (Error ''OPENROUTER_API_KEY is required'')
          else Inr \<lparr>apiKey = k,
                    baseURL = (case base of
                                 None \<Rightarrow> ''https://openrouter.ai/api/v1''
                               | Some b \<Rightarrow> if b = [] then ''https://openrouter.ai/api/v1'' else b),
                    FRONTEND_URL = frontend\<rparr>)"

definition openrouter_languageMap :: "(string \<times> string) list" where
  "openrouter_languageMap =
     github_languageMap @ [(''dockerfile'', ''Docker''), (''docker'', ''Docker'')]"

definition detectLanguage :: "string \<Rightarrow> map_value" where
  \<comment> \<open>\<open>OpenRouterService.detectLanguage\<close>\<close>
  "detectLanguage filename =
     or_else (lookup_object openrouter_languageMap (toLowerCase (last_piece filename))) ''Unknown''"

definition map_value_text :: "map_value \<Rightarrow> string" where
  \<comment> \<open>a looked-up value in a template literal\<close>
  "map_value_text v =
     (case v of
        Name s \<Rightarrow> s
      | Object_constructor \<Rightarrow> ''function Object() { [native code] }''
      | Object_prototype \<Rightarrow> ''[object Object]'')"

definition formatFileSize :: "js_text \<Rightarrow> nat \<Rightarrow> string" where
  "formatFileSize rt bytes = (if bytes = 0 then ''0 B'' else size_text rt bytes)"

definition formatFileStructure :: "js_text \<Rightarrow> repo_file list \<Rightarrow> string" where
  "formatFileStructure rt fs =
     (if fs = [] then ''No files available''
      else
        join_str
          (map (\<lambda>f.
                 ''- '' @ name f
                 @ (case file_size f of
                      None \<Rightarrow> []
                    | Some n \<Rightarrow> if n = 0 then [] else '' ('' @ formatFileSize rt n @ '')'')
                 @ '' ['' @ map_value_text (detectLanguage (name f)) @ '']'')
             (take 50 fs))
          [CHR 0x0A])"

definition prompt_sections :: string where
  \<comment> \<open>the fixed text of the template between the file structure and the second format name\<close>
  "prompt_sections =
     ''\<newline>''
     @ ''\<newline>''
     @ ''Please create documentation that includes:\<newline>''
     @ ''\<newline>''
     @ ''1. **Project Overview**\<newline>''
     @ ''   - Brief description of what the project does\<newline>''
     @ ''   - Key features and capabilities\<newline>''
     @ ''   - Technology stack used\<newline>''
     @ ''\<newline>''
     @ ''2. **Installation Guide**\<newline>''
     @ ''   - Prerequisites\<newline>''
     @ ''   - Step-by-step installation instructions\<newline>''
     @ ''   - Environment setup\<newline>''
     @ ''\<newline>''
     @ ''3. **Usage Guide**\<newline>''
     @ ''   - How to run the project\<newline>''
     @ ''   - Basic usage examples\<newline>''
     @ ''   - Configuration options\<newline>''
     @ ''\<newline>''
     @ ''4. **API Documentation** (if applicable)\<newline>''
     @ ''   - Available endpoints\<newline>''
     @ ''   - Request/response formats\<newline>''
     @ ''   - Authentication methods\<newline>''
     @ ''\<newline>''
     @ ''5. **Development Guide**\<newline>''
     @ ''   - How to contribute\<newline>''
     @ ''   - Development setup\<newline>''
     @ ''   - Testing instructions\<newline>''
     @ ''\<newline>''
     @ ''6. **Architecture Overview**\<newline>''
     @ ''   - Project structure\<newline>''
     @ ''   - Key components\<newline>''
     @ ''   - Data flow\<newline>''
     @ ''\<newline>''
     @ ''7. **Troubleshooting**\<newline>''
     @ ''   - Common issues and solutions\<newline>''
     @ ''   - Debugging tips\<newline>''
     @ ''\<newline>''
     @ ''Please ensure the documentation is:\<newline>''
     @ ''- Well-structured with clear headings\<newline>''
     @ ''- Easy to follow for new developers\<newline>''
     @ ''- Professional and comprehensive\<newline>''
     @ ''- Include code examples where relevant\<newline>''
     @ ''- Use proper ''"

definition prompt_closing :: string where
  "prompt_closing =
     '' formatting\<newline>''
     @ ''\<newline>''
     @ ''Generate the complete documentation now:''"

definition readme_segment :: "string option \<Rightarrow> string" where
  \<comment> \<open>\<^verbatim>\<open>readme ? `README Content:\n${readme}\n` : ''\<close>\<close>
  "readme_segment rd =
     (case rd of
        None \<Rightarrow> []
      | Some r \<Rightarrow> if r = [] then [] else ''README Content:\<newline>'' @ r @ ''\<newline>'')"

definition package_segment :: "json option \<Rightarrow> js_error + string" where
  \<comment> \<open>\<^verbatim>\<open>packageJson ? `Package.json:\n${packageJson}\n` : ''\<close>\<close>
  "package_segment pj =
     (case pj of
        None \<Rightarrow> Inr []
      | Some j \<Rightarrow>
          if js_truthy j then
            (case js_String j of
               Inl e \<Rightarrow> Inl e
             | Inr t \<Rightarrow> Inr (''Package.json:\<newline>'' @ t @ ''\<newline>''))
          else Inr [])"

definition prompt_intro :: "'j repoData \<Rightarrow> string \<Rightarrow> string \<Rightarrow> string" where
  \<comment> \<open>the template up to the README segment\<close>
  "prompt_intro repoData format style =
     ''Generate comprehensive '' @ style
     @ '' documentation for this GitHub repository in '' @ toUpperCase format @ '' format.\<newline>''
     @ ''\<newline>''
     @ ''Repository Information:\<newline>''
     @ ''- Name: '' @ repoName (metadata repoData) @ ''\<newline>''
     @ ''- Owner: '' @ repoOwner (metadata repoData) @ ''\<newline>''
     @ ''- Language: ''
     @ (if language (metadata repoData) = [] then ''Unknown'' else language (metadata repoData))
     @ ''\<newline>''
     @ ''- Framework: ''
     @ (if framework (metadata repoData) = [] then ''Unknown'' else framework (metadata repoData))
     @ ''\<newline>''
     @ ''- Total Files: '' @ show_nat (fileCount (metadata repoData)) @ ''\<newline>''
     @ ''- Total Lines: '' @ show_nat (totalLines (metadata repoData)) @ ''\<newline>''
     @ ''\<newline>''"

definition prompt_rest :: "js_text \<Rightarrow> 'j repoData \<Rightarrow> string \<Rightarrow> string" where
  \<comment> \<open>the template after the line of the manifest segment\<close>
  "prompt_rest rt repoData format =
     ''\<newline>''
     @ ''Key Files Structure:\<newline>''
     @ formatFileStructure rt (files repoData)
     @ prompt_sections @ toUpperCase format @ prompt_closing"

definition buildDocumentationPrompt ::
  "js_text \<Rightarrow> json repoData \<Rightarrow> string \<Rightarrow> string \<Rightarrow> js_error + string" where
  "buildDocumentationPrompt rt repoData format style =
     (case package_segment (packageJson repoData) of
        Inl e \<Rightarrow> Inl e
      | Inr package_text \<Rightarrow>
          Inr (prompt_intro repoData format style
               @ readme_segment (readme repoData) @ ''\<newline>''
               @ package_text @ ''\<newline>''
               @ prompt_rest rt repoData format))"

text \<open>
  The options of a generation request; a field that is not given is \<open>None\<close>. The request
  that axios posts holds the address, the headers and the body.
\<close>

record options =
  model :: "string option"
  temperature :: "rat option"
  maxTokens :: "nat option"
  format :: "string option"
  style :: "string option"

record chat_message =
  role :: string
  msg_content :: string

record chat_body =
  body_model :: string
  messages :: "chat_message list"
  body_temperature :: rat
  max_tokens :: nat

record stream_chat_body = chat_body +
  stream :: bool

record 'b request =
  req_url :: string
  req_headers :: "(string \<times> string) list"
  req_body :: 'b

record choice =
  choice_content :: string
  finish_reason :: string

record 'u chat_data =
  choices :: "choice list"
  data_usage :: 'u

record 'u generation =
  gen_content :: string
  gen_model :: string
  usage :: 'u
  finishReason :: string

definition chat_request :: "openrouter \<Rightarrow> options \<Rightarrow> string \<Rightarrow> stream_chat_body request" where
  \<comment> \<open>the request posted for a prompt, with the defaults of the destructured options\<close>
  "chat_request svc opts prompt =
     (let model = (case model opts of None \<Rightarrow> ''anthropic/claude-3.5-sonnet'' | Some m \<Rightarrow> m);
          temperature = (case temperature opts of None \<Rightarrow> 3 / 10 | Some t \<Rightarrow> t);
          maxTokens = (case maxTokens opts of None \<Rightarrow> 4000 | Some n \<Rightarrow> n)
      in \<lparr>req_url = baseURL svc @ ''/chat/completions'',
          req_headers =
            [(''Authorization'', ''Bearer '' @ apiKey svc),
             (''Content-Type'', ''application/json''),
             (''HTTP-Referer'',
                (case FRONTEND_URL svc of
                   None \<Rightarrow> ''http://localhost:3000''
                 | Some u \<Rightarrow> if u = [] then ''http://localhost:3000'' else u)),
             (''X-Title'', ''Doc Creator'')],
          req_body =
            \<lparr>body_model = model,
             messages =
               [\<lparr>role = ''system'',
                 msg_content = ''You are an expert software documentation writer. Generate clear, comprehensive, and professional documentation.''\<rparr>,
                \<lparr>role = ''user'', msg_content = prompt\<rparr>],
             body_temperature = temperature, max_tokens = maxTokens, stream = False\<rparr>\<rparr>)"

definition generateDocumentation ::
  "openrouter \<Rightarrow> js_text \<Rightarrow> (stream_chat_body request \<Rightarrow> http_error + 'u chat_data)
     \<Rightarrow> json repoData \<Rightarrow> options \<Rightarrow> js_error + 'u generation" where
  \<comment> \<open>the prompt is built before the \<open>try\<close>, so its error is not rewritten\<close>
  "generateDocumentation svc rt post repoData opts =
     (let format = (case format opts of None \<Rightarrow> ''markdown'' | Some f \<Rightarrow> f);
          style = (case style opts of None \<Rightarrow> ''professional'' | Some s \<Rightarrow> s)
      in case buildDocumentationPrompt rt repoData format style of
           Inl e \<Rightarrow> Inl e
         | Inr prompt \<Rightarrow>
             (case post (chat_request svc opts prompt) of
                Inl error \<Rightarrow>
                  Inl (Error (''AI generation failed: ''
                         @ (case api_message error of
                              None \<Rightarrow> message error
                            | Some m \<Rightarrow> if m = [] then message error else m)))
              | Inr data \<Rightarrow>
                  (case choices data of
                     [] \<Rightarrow> Inl (Error (''AI generation failed: '' @ undefined_read_message rt))
                   | c # others \<Rightarrow>
                       Inr \<lparr>gen_content = choice_content c,
                            gen_model = body_model (req_body (chat_request svc opts prompt)),
                            usage = data_usage data, finishReason = finish_reason c\<rparr>)))"

record model_entry =
  model_id :: string

record 'm catalog_data =
  catalog :: "'m list option"

definition models_request :: "openrouter \<Rightarrow> unit request" where
  "models_request svc =
     \<lparr>req_url = baseURL svc @ ''/models'',
      req_headers = [(''Authorization'', ''Bearer '' @ apiKey svc),
                     (''Content-Type'', ''application/json'')],
      req_body = ()\<rparr>"

definition getAvailableModels ::
  "openrouter \<Rightarrow> (unit request \<Rightarrow> http_error + ('a model_entry_scheme) catalog_data)
     \<Rightarrow> 'a model_entry_scheme list" where
  \<comment> \<open>\<open>catalog\<close> is \<open>response.data.data\<close>; the filter throws when it is missing\<close>
  "getAvailableModels svc get =
     (case get (models_request svc) of
        Inl error \<Rightarrow> []
      | Inr data \<Rightarrow>
          (case catalog data of
             None \<Rightarrow> []
           | Some entries \<Rightarrow>
               filter (\<lambda>m. includes_str (model_id m) ''claude'' \<or> includes_str (model_id m) ''gpt''
                            \<or> includes_str (model_id m) ''gemini'') entries))"

text \<open>
  The model a request asks for: the identifier its options carry, and the default of
  the destructuring when they carry none. An identifier is a listed name when one of
  the three substrings of the catalog filter occurs in it.
\<close>

definition default_model :: string where
  "default_model = ''anthropic/claude-3.5-sonnet''"

definition requested_model :: "options \<Rightarrow> string" where
  "requested_model opts = (case model opts of None \<Rightarrow> default_model | Some m \<Rightarrow> m)"

definition listed_name :: "string \<Rightarrow> bool" where
  "listed_name ident \<longleftrightarrow>
     occurs_in ''claude'' ident \<or> occurs_in ''gpt'' ident \<or> occurs_in ''gemini'' ident"

text \<open>A service, a runtime and analyzer outputs for the examples.\<close>

definition example_svc :: openrouter where
  "example_svc = \<lparr>apiKey = ''sk-test'', baseURL = ''https://openrouter.ai/api/v1'', FRONTEND_URL = None\<rparr>"

definition example_text :: js_text where
  "example_text =
     \<lparr>size_text = (\<lambda>n. show_nat n @ '' B''),
      undefined_read_message = ''Cannot read properties of undefined''\<rparr>"

definition example_repoData :: "string option \<Rightarrow> json option \<Rightarrow> json repoData" where
  "example_repoData rd pj =
     \<lparr>metadata =
        \<lparr>language = ''Python'', framework = ''Django'', fileCount = 1, totalLines = 0,
         fileTypes = [(''.py'', 1)], hasTests = False, hasDocs = False, hasDocker = False,
         hasCI = False, repoName = ''demo'', repoOwner = ''octocat'', meta_branch = ''main'',
         meta_url = ''https://github.com/octocat/demo''\<rparr>,
      files = [blob ''manage.py''], readme = rd, packageJson = pj,
      repoInfo =
        \<lparr>info_name = ''demo'', info_description = None, info_language = Some ''Python'',
         stars = 0, forks = 0, info_size = 1, defaultBranch = ''main'', topics = [],
         homepage = None, license = None\<rparr>\<rparr>"

definition strict_upstream :: "stream_chat_body request \<Rightarrow> http_error + unit chat_data" where
  \<comment> \<open>an upstream that serves the default model and rejects any other identifier\<close>
  "strict_upstream req =
     (if body_model (req_body req) = ''anthropic/claude-3.5-sonnet''
      then Inr \<lparr>choices = [\<lparr>choice_content = ''# demo'', finish_reason = ''stop''\<rparr>],
                data_usage = ()\<rparr>
      else Inl \<lparr>status = Some 400,
                api_message = Some (body_model (req_body req) @ '' is not a valid model ID''),
                message = ''Request failed with status code 400''\<rparr>)"

definition no_options :: options where
  "no_options = \<lparr>model = None, temperature = None, maxTokens = None, format = None, style = None\<rparr>"
section \<open>Stand-alone server\<close>

text \<open>
  The server listening on port 5001 carries classes of its own with the names
  \<open>OpenRouterService\<close> and \<open>GitHubService\<close>; the routes \<open>/api/ai/generate\<close>,
  \<open>/api/ai/models\<close> and \<open>/api/github/analyze\<close> call their methods. The definitions
  of this section are those methods; a name that the service modules use already has
  the prefix \<open>server_\<close>.
\<close>

subsection \<open>JSON values as objects\<close>

text \<open>
  A JSON object is the list of its own properties in the order \<open>JSON.parse\<close> met them,
  with distinct keys. Reading a property that a value does not have gives
  \<open>undefined\<close>, here \<open>None\<close>; none of the property names the server reads of a parsed
  value is inherited by objects, arrays or strings. \<open>Object.keys\<close> lists the keys that
  are array indices first, in ascending order, and the others in insertion order; of an
  array or a string it lists the indices.
\<close>

definition get_property :: "json \<Rightarrow> string \<Rightarrow> json option" where
  "get_property j key = (case j of JObject kvs \<Rightarrow> map_of kvs key | _ \<Rightarrow> None)"

definition truthy_property :: "json \<Rightarrow> string \<Rightarrow> bool" where
  \<comment> \<open>the truth value of \<open>j.key\<close> and of \<open>j?.key\<close>\<close>
  "truthy_property j key = (case get_property j key of None \<Rightarrow> False | Some v \<Rightarrow> js_truthy v)"

definition digits_value :: "string \<Rightarrow> int" where
  "digits_value k = foldl (\<lambda>n c. 10 * n + (of_char c - 48)) 0 k"

definition is_array_index :: "string \<Rightarrow> bool" where
  \<comment> \<open>the canonical decimal text of an integer from 0 to \<open>2^32 - 2\<close>\<close>
  "is_array_index k =
     (k \<noteq> [] \<and> list_all (\<lambda>c. 48 \<le> (of_char c :: nat) \<and> (of_char c :: nat) \<le> 57) k
      \<and> (k = ''0'' \<or> hd k \<noteq> CHR ''0'') \<and> digits_value k < 4294967295)"

definition Object_keys :: "json \<Rightarrow> string list" where
  \<comment> \<open>\<open>Object.keys(j)\<close> for a truthy value\<close>
  "Object_keys j =
     (case j of
        JObject kvs \<Rightarrow>
          sort_key digits_value (filter is_array_index (map fst kvs))
          @ filter (\<lambda>k. \<not> is_array_index k) (map fst kvs)
      | JArray xs \<Rightarrow> map show_nat [0..<length xs]
      | JString s \<Rightarrow> map show_nat [0..<length s]
      | _ \<Rightarrow> [])"

definition text_of :: "json option \<Rightarrow> js_error + string" where
  \<comment> \<open>a property in a template literal\<close>
  "text_of v = (case v of None \<Rightarrow> Inr ''undefined'' | Some j \<Rightarrow> js_String j)"

definition inherited_names :: "string list" where
  \<comment> \<open>the properties every object inherits from \<open>Object.prototype\<close>; their values are
      functions or objects, truthy and without a method \<open>push\<close>\<close>
  "inherited_names =
     [''constructor'', ''__defineGetter__'', ''__defineSetter__'', ''hasOwnProperty'',
      ''__lookupGetter__'', ''__lookupSetter__'', ''isPrototypeOf'', ''propertyIsEnumerable'',
      ''toString'', ''valueOf'', ''__proto__'', ''toLocaleString'']"

subsection \<open>Repository analysis\<close>

text \<open>
  The fields the analysis reads of the repository and of an entry of the contents
  listing, and the four requests by their arguments: \<open>/repos/owner/repo\<close>,
  \<open>/repos/owner/repo/contents\<close>, \<open>/repos/owner/repo/readme\<close> and
  \<open>/repos/owner/repo/contents/package.json\<close>.
\<close>

record full_repo_data = repo_data +
  owner_login :: string
  html_url :: string
  updated_at :: string
  created_at :: string
  open_issues_count :: nat

record contents_item =
  ci_type :: string
  ci_name :: string
  ci_size :: nat
  ci_path :: string
  ci_html_url :: string

record contents_api =
  repo_request :: "string \<Rightarrow> string \<Rightarrow> http_error + full_repo_data"
  contents_request :: "string \<Rightarrow> string \<Rightarrow> http_error + contents_item list"
  readme_request :: "string \<Rightarrow> string \<Rightarrow> http_error + content_data"
  package_request :: "string \<Rightarrow> string \<Rightarrow> http_error + content_data"

text \<open>The result of the analysis.\<close>

record server_file =
  f_name :: string
  f_size :: nat
  f_language :: string
  f_path :: string
  f_url :: string

record server_metadata =
  s_repoName :: string
  s_repoOwner :: string
  s_branch :: string
  s_url :: string
  s_language :: string
  s_framework :: string
  s_fileCount :: nat
  s_totalLines :: nat
  s_description :: string
  s_topics :: "string list"
  s_stars :: nat
  s_forks :: nat
  s_lastUpdated :: string
  s_createdAt :: string
  s_homepage :: "string option"
  s_license :: "string option"

record server_repoInfo =
  ri_name :: string
  ri_description :: "string option"
  ri_language :: "string option"
  ri_stars :: nat
  ri_forks :: nat
  ri_issues :: nat
  ri_pullRequests :: nat
  ri_lastCommit :: string
  ri_topics :: "string list option"

record dependency_info =
  di_dependencies :: json
  di_devDependencies :: json
  di_scripts :: json

record server_analysis =
  projectType :: string
  architecture :: string
  mainFeatures :: "json list"
  keyComponents :: "string list"
  dependencies :: "dependency_info option"
  fileStructure :: "string \<rightharpoonup> string list"

record server_repoData =
  s_metadata :: server_metadata
  s_files :: "server_file list"
  s_readme :: string
  s_packageJson :: json
  s_repoInfo :: server_repoInfo
  s_analysis :: server_analysis

text \<open>
  The regular expression of the server,
  \<^verbatim>\<open>/github\.com\/([^\/]+)\/([^\/]+)/\<close>: the literal and two greedy groups of
  characters other than \<open>/\<close> with a \<open>/\<close> between them, tried from left to right.
\<close>

definition server_match_here :: "string \<Rightarrow> (string \<times> string) option" where
  "server_match_here s =
     (if startsWith s ''github.com/'' then
        (let r1 = drop 11 s;
             g1 = takeWhile notSlash r1;
             r2 = dropWhile notSlash r1
         in if g1 = [] \<or> r2 = [] then None
            else
              (let g2 = takeWhile notSlash (tl r2)
               in if g2 = [] then None else Some (g1, g2)))
      else None)"

fun server_regexp_match :: "string \<Rightarrow> (string \<times> string) option" where
  "server_regexp_match [] = server_match_here []"
| "server_regexp_match (c # s) =
     (case server_match_here (c # s) of Some m \<Rightarrow> Some m | None \<Rightarrow> server_regexp_match s)"

text \<open>
  What the \<open>try\<close> block of the analysis can throw: the rejection of a request, the
  error it raises itself for a string that does not match, and the \<open>TypeError\<close> of
  calling \<open>push\<close> on an inherited property. The \<open>catch\<close> reads
  \<open>error.response?.status\<close>, which only a rejection has.
\<close>

datatype caught = Rejected http_error | Raised js_error | TypeError

definition response_status :: "caught \<Rightarrow> nat option" where
  "response_status c = (case c of Rejected e \<Rightarrow> status e | _ \<Rightarrow> None)"

definition analysis_error :: "caught \<Rightarrow> js_error" where
  \<comment> \<open>the \<open>catch\<close> of \<open>analyzeRepository\<close>\<close>
  "analysis_error c =
     (if response_status c = Some 404
      then Error ''Repository not found. Please check the URL and ensure the repository is public.''
      else if response_status c = Some 403
      then Error ''Rate limit exceeded. Please try again later or add a GitHub token.''
      else if response_status c = Some 401
      then Error ''Authentication failed. Please check your GitHub token or try with a public repository.''
      else Error ''Failed to analyze repository. Please check the URL and try again.'')"

definition server_languageMap :: "(string \<times> string) list" where
  "server_languageMap =
     [(''js'', ''JavaScript''), (''ts'', ''TypeScript''), (''jsx'', ''React''),
      (''tsx'', ''React TypeScript''), (''py'', ''Python''), (''java'', ''Java''),
      (''cpp'', ''C++''), (''c'', ''C''), (''go'', ''Go''), (''rs'', ''Rust''), (''php'', ''PHP''),
      (''rb'', ''Ruby''), (''swift'', ''Swift''), (''kt'', ''Kotlin''), (''scala'', ''Scala''),
      (''html'', ''HTML''), (''css'', ''CSS''), (''json'', ''JSON''), (''md'', ''Markdown''),
      (''yml'', ''YAML''), (''yaml'', ''YAML''), (''xml'', ''XML''), (''sql'', ''SQL''),
      (''sh'', ''Shell''), (''ps1'', ''PowerShell'')]"

definition getLanguageFromExtension :: "string \<Rightarrow> string" where
  \<comment> \<open>\<open>languageMap[ext] || 'Unknown'\<close>; the analysis calls it after
      \<open>fileTypes[ext].push\<close>, so with an extension that is no inherited name\<close>
  "getLanguageFromExtension ext =
     (case map_of server_languageMap ext of Some l \<Rightarrow> l | None \<Rightarrow> ''Unknown'')"

definition item_ext :: "string \<Rightarrow> string" where
  \<comment> \<open>\<open>item.name.split('.').pop() || 'no-extension'\<close>\<close>
  "item_ext item_name =
     (if last_piece item_name = [] then ''no-extension'' else last_piece item_name)"

fun collect_files :: "contents_item list \<Rightarrow> server_file list option" where
  \<comment> \<open>the loop over the contents; \<open>None\<close> when \<open>fileTypes[ext].push\<close> throws\<close>
  "collect_files [] = Some []"
| "collect_files (item # items) =
     (if ci_type item = ''file'' then
        (if item_ext (ci_name item) \<in> set inherited_names then None
         else
           (case collect_files items of
              None \<Rightarrow> None
            | Some fs \<Rightarrow>
                Some (\<lparr>f_name = ci_name item, f_size = ci_size item,
                        f_language = getLanguageFromExtension (item_ext (ci_name item)),
                        f_path = ci_path item, f_url = ci_html_url item\<rparr> # fs)))
      else collect_files items)"

definition merged_dependency :: "json \<Rightarrow> string \<Rightarrow> bool" where
  \<comment> \<open>the truth value of \<open>dependencies.key\<close> for
      \<open>{...packageJson.dependencies, ...packageJson.devDependencies}\<close>: a key of the
      second object hides the one of the first\<close>
  "merged_dependency pkg key =
     (case (case get_property pkg ''devDependencies'' of
              None \<Rightarrow> None | Some dev \<Rightarrow> get_property dev key) of
        Some v \<Rightarrow> js_truthy v
      | None \<Rightarrow>
          (case get_property pkg ''dependencies'' of
             None \<Rightarrow> False | Some deps \<Rightarrow> truthy_property deps key))"

definition detectFramework :: "json \<Rightarrow> server_file list \<Rightarrow> string" where
  "detectFramework pkg fs =
     (if \<not> js_truthy pkg then ''Unknown''
      else if merged_dependency pkg ''react'' then ''React''
      else if merged_dependency pkg ''vue'' then ''Vue.js''
      else if merged_dependency pkg ''angular'' then ''Angular''
      else if merged_dependency pkg ''express'' then ''Express.js''
      else if merged_dependency pkg ''next'' then ''Next.js''
      else if merged_dependency pkg ''nuxt'' then ''Nuxt.js''
      else if merged_dependency pkg ''gatsby'' then ''Gatsby''
      else if merged_dependency pkg ''django'' then ''Django''
      else if merged_dependency pkg ''flask'' then ''Flask''
      else if merged_dependency pkg ''fastapi'' then ''FastAPI''
      else if merged_dependency pkg ''spring'' then ''Spring Boot''
      else if merged_dependency pkg ''laravel'' then ''Laravel''
      else if merged_dependency pkg ''symfony'' then ''Symfony''
      else ''Unknown'')"

definition has_dependency :: "json \<Rightarrow> string \<Rightarrow> bool" where
  \<comment> \<open>the truth value of \<open>packageJson?.dependencies?.key\<close>\<close>
  "has_dependency pkg key =
     (case get_property pkg ''dependencies'' of
        None \<Rightarrow> False | Some deps \<Rightarrow> truthy_property deps key)"

definition detectProjectType :: "json \<Rightarrow> server_file list \<Rightarrow> string \<Rightarrow> string" where
  "detectProjectType pkg fs lang =
     (if has_dependency pkg ''react'' \<or> list_ex (\<lambda>f. includes_str (f_name f) ''App.js'') fs
      then ''React Application''
      else if has_dependency pkg ''express'' then ''Node.js Backend''
      else if lang = ''Python'' \<and> list_ex (\<lambda>f. includes_str (f_name f) ''requirements.txt'') fs
      then ''Python Application''
      else if lang = ''Java'' \<and> list_ex (\<lambda>f. includes_str (f_name f) ''pom.xml'') fs
      then ''Java Application''
      else ''Web Application'')"

definition detectArchitecture :: "json \<Rightarrow> server_file list \<Rightarrow> string" where
  "detectArchitecture pkg fs =
     (if has_dependency pkg ''react'' \<and> has_dependency pkg ''express''
      then ''Full-stack (React + Express)''
      else if has_dependency pkg ''react'' then ''Frontend (React)''
      else if has_dependency pkg ''express'' then ''Backend (Express)''
      else ''Unknown'')"

definition includes_mark :: "string \<Rightarrow> bool" where
  \<comment> \<open>whether a line includes one of the marks U+2705, U+2713 and U+2022: they lie above
      U+00FF, so no line of a modelled string does\<close>
  "includes_mark line = False"

definition extractFeatures :: "string \<Rightarrow> json \<Rightarrow> json list" where
  "extractFeatures rd pkg =
     (let from_readme =
            (if rd = [] then []
             else map (\<lambda>line. JString (trim line)) (filter includes_mark (split_str rd (CHR 0x0A))));
          features =
            from_readme
            @ (case get_property pkg ''description'' of
                 None \<Rightarrow> []
               | Some d \<Rightarrow> if js_truthy d then [d] else [])
      in if features = [] then [JString ''Documentation generator''] else features)"

definition file_components :: "server_file \<Rightarrow> string list" where
  \<comment> \<open>what one file adds to the components\<close>
  "file_components f =
     (if includes_str (f_name f) ''App.js'' \<or> includes_str (f_name f) ''App.tsx''
      then [''Main Application Component''] else [])
     @ (if includes_str (f_name f) ''index.js'' \<or> includes_str (f_name f) ''main.js''
        then [''Entry Point''] else [])
     @ (if includes_str (f_name f) ''package.json'' then [''Package Configuration''] else [])
     @ (if includes_str (f_name f) ''README'' then [''Documentation''] else [])"

definition identifyComponents :: "server_file list \<Rightarrow> string list" where
  "identifyComponents fs =
     (let components = concat (map file_components fs)
      in if components = [] then [''Core Application''] else components)"

definition structure_step ::
  "(string \<rightharpoonup> string list) option \<Rightarrow> server_file \<Rightarrow> (string \<rightharpoonup> string list) option" where
  \<comment> \<open>one iteration of the loop of \<open>analyzeFileStructure\<close>; \<open>None\<close> when
      \<open>structure[dir].push\<close> throws\<close>
  "structure_step st f =
     (case st of
        None \<Rightarrow> None
      | Some dirs \<Rightarrow>
          (let pieces = split_str (f_path f) (CHR ''/'');
               dir = (if length pieces > 1 then hd pieces else ''root'')
           in case dirs dir of
                Some names \<Rightarrow> Some (dirs(dir \<mapsto> names @ [f_name f]))
              | None \<Rightarrow>
                  if dir \<in> set inherited_names then None
                  else Some (dirs(dir \<mapsto> [f_name f]))))"

definition analyzeFileStructure :: "server_file list \<Rightarrow> (string \<rightharpoonup> string list) option" where
  "analyzeFileStructure fs = foldl structure_step (Some (\<lambda>dir. None)) fs"

definition server_readme ::
  "('j, 'x) js_lib_scheme \<Rightarrow> contents_api \<Rightarrow> string \<Rightarrow> string \<Rightarrow> string" where
  \<comment> \<open>the inner \<open>try\<close> for the README: the text stays empty when anything throws\<close>
  "server_readme lib api own rep =
     (case readme_request api own rep of
        Inl error \<Rightarrow> []
      | Inr d \<Rightarrow> (case content d of None \<Rightarrow> [] | Some c \<Rightarrow> base64_utf8 lib c))"

definition server_package ::
  "(json, 'x) js_lib_scheme \<Rightarrow> contents_api \<Rightarrow> string \<Rightarrow> string \<Rightarrow> json" where
  \<comment> \<open>the inner \<open>try\<close> for the manifest: it stays \<open>null\<close> when anything throws\<close>
  "server_package lib api own rep =
     (case package_request api own rep of
        Inl error \<Rightarrow> JNull
      | Inr d \<Rightarrow>
          (case content d of
             None \<Rightarrow> JNull
           | Some c \<Rightarrow> (case JSON_parse lib (base64_utf8 lib c) of None \<Rightarrow> JNull | Some j \<Rightarrow> j)))"

definition or_empty_object :: "json option \<Rightarrow> json" where
  \<comment> \<open>\<open>v || {}\<close>\<close>
  "or_empty_object v = (case v of None \<Rightarrow> JObject [] | Some j \<Rightarrow> if js_truthy j then j else JObject [])"

definition analysis_result ::
  "full_repo_data \<Rightarrow> server_file list \<Rightarrow> string \<Rightarrow> json \<Rightarrow> (string \<rightharpoonup> string list)
     \<Rightarrow> server_repoData" where
  \<comment> \<open>the object the analysis returns\<close>
  "analysis_result repoData fs rd pkg dirs =
     (let lang = (case d_language repoData of
                    None \<Rightarrow> ''Unknown'' | Some l \<Rightarrow> if l = [] then ''Unknown'' else l)
      in \<lparr>s_metadata =
            \<lparr>s_repoName = d_name repoData, s_repoOwner = owner_login repoData,
             s_branch = default_branch repoData, s_url = html_url repoData,
             s_language = lang, s_framework = detectFramework pkg fs,
             s_fileCount = length fs, s_totalLines = d_size repoData,
             s_description = (case d_description repoData of None \<Rightarrow> [] | Some t \<Rightarrow> t),
             s_topics = (case d_topics repoData of None \<Rightarrow> [] | Some ts \<Rightarrow> ts),
             s_stars = stargazers_count repoData, s_forks = forks_count repoData,
             s_lastUpdated = updated_at repoData, s_createdAt = created_at repoData,
             s_homepage = d_homepage repoData, s_license = d_license repoData\<rparr>,
          s_files = fs, s_readme = rd, s_packageJson = pkg,
          s_repoInfo =
            \<lparr>ri_name = d_name repoData, ri_description = d_description repoData,
             ri_language = d_language repoData, ri_stars = stargazers_count repoData,
             ri_forks = forks_count repoData, ri_issues = open_issues_count repoData,
             ri_pullRequests = 0, ri_lastCommit = updated_at repoData,
             ri_topics = d_topics repoData\<rparr>,
          s_analysis =
            \<lparr>projectType = detectProjectType pkg fs lang,
             architecture = detectArchitecture pkg fs,
             mainFeatures = extractFeatures rd pkg,
             keyComponents = identifyComponents fs,
             dependencies =
               (if js_truthy pkg
                then Some \<lparr>di_dependencies = or_empty_object (get_property pkg ''dependencies''),
                           di_devDependencies = or_empty_object (get_property pkg ''devDependencies''),
                           di_scripts = or_empty_object (get_property pkg ''scripts'')\<rparr>
                else None),
             fileStructure = dirs\<rparr>\<rparr>)"

definition try_analyze ::
  "(json, 'x) js_lib_scheme \<Rightarrow> contents_api \<Rightarrow> string \<Rightarrow> caught + server_repoData" where
  \<comment> \<open>the \<open>try\<close> block of \<open>analyzeRepository\<close>\<close>
  "try_analyze lib api repoUrl =
     (case server_regexp_match repoUrl of
        None \<Rightarrow> Inl (Raised (Error ''Invalid GitHub URL''))
      | Some (own, rep) \<Rightarrow>
          (case repo_request api own rep of
             Inl error \<Rightarrow> Inl (Rejected error)
           | Inr repoData \<Rightarrow>
               (case contents_request api own rep of
                  Inl error \<Rightarrow> Inl (Rejected error)
                | Inr contents \<Rightarrow>
                    (let rd = server_readme lib api own rep;
                         pkg = server_package lib api own rep
                     in case collect_files contents of
                          None \<Rightarrow> Inl TypeError
                        | Some fs \<Rightarrow>
                            (case analyzeFileStructure fs of
                               None \<Rightarrow> Inl TypeError
                             | Some dirs \<Rightarrow>
                                 Inr (analysis_result repoData fs rd pkg dirs))))))"

definition server_analyzeRepository ::
  "(json, 'x) js_lib_scheme \<Rightarrow> contents_api \<Rightarrow> string \<Rightarrow> js_error + server_repoData" where
  "server_analyzeRepository lib api repoUrl =
     (case try_analyze lib api repoUrl of
        Inl c \<Rightarrow> Inl (analysis_error c)
      | Inr res \<Rightarrow> Inr res)"

text \<open>
  The failures as the specification names them: the kind of a failure is decided by
  the HTTP status of the response, when there is one.
\<close>

datatype failure = NotFound | RateLimited | AuthFailed | UpstreamError


fun user_message :: "failure \<Rightarrow> string" where
  "user_message NotFound = ''Repository not found. Please check the URL and ensure the repository is public.''"
| "user_message RateLimited = ''Rate limit exceeded. Please try again later or add a GitHub token.''"
| "user_message AuthFailed = ''Authentication failed. Please check your GitHub token or try with a public repository.''"
| "user_message UpstreamError = ''Failed to analyze repository. Please check the URL and try again.''"

subsection \<open>Generation client\<close>

text \<open>
  The rejection of the generation request: besides the fields of \<open>http_error\<close>,
  \<open>api_code\<close> is \<open>error.response?.data?.error?.code\<close> when it is a number and
  \<open>err_code\<close> is \<open>error.code\<close>. The answer holds the model that served the request.
\<close>

record post_error = http_error +
  api_code :: "nat option"
  err_code :: "string option"

record 'u model_chat_data = "'u chat_data" +
  data_model :: string

record 'b timed_request = "'b request" +
  req_timeout :: nat

definition reliableModels :: "string list" where
  "reliableModels =
     [''openai/gpt-3.5-turbo'', ''google/gemini-pro'', ''anthropic/claude-3-haiku'',
      ''meta-llama/llama-3.1-8b-instruct'']"

definition selectedModel :: "'a options_scheme \<Rightarrow> string" where
  \<comment> \<open>the default, replaced by \<open>options.model\<close> when that is truthy and in the list\<close>
  "selectedModel opts =
     (case model opts of
        None \<Rightarrow> ''openai/gpt-3.5-turbo''
      | Some m \<Rightarrow> if m \<noteq> [] \<and> m \<in> set reliableModels then m else ''openai/gpt-3.5-turbo'')"

definition prompt_package :: "json \<Rightarrow> js_error + string" where
  \<comment> \<open>the lines of the prompt for a truthy manifest\<close>
  "prompt_package pkg =
     (case text_of (get_property pkg ''name'') of
        Inl e \<Rightarrow> Inl e
      | Inr name_text \<Rightarrow>
          (case text_of (get_property pkg ''description'') of
             Inl e \<Rightarrow> Inl e
           | Inr description_text \<Rightarrow>
               Inr (''Package Info:\<newline>''
                    @ ''Name: '' @ name_text @ ''\<newline>''
                    @ ''Description: '' @ description_text @ ''\<newline>''
                    @ (case get_property pkg ''scripts'' of
                         None \<Rightarrow> []
                       | Some scripts \<Rightarrow>
                           if js_truthy scripts
                           then ''Scripts: '' @ join_str (Object_keys scripts) '', '' @ ''\<newline>''
                           else [])
                    @ (case get_property pkg ''dependencies'' of
                         None \<Rightarrow> []
                       | Some deps \<Rightarrow>
                           if js_truthy deps
                           then ''Dependencies: '' @ join_str (take 10 (Object_keys deps)) '', ''
                                @ ''\<newline>''
                           else [])
                    @ ''\<newline>'')))"

definition prompt_request :: string where
  \<comment> \<open>the fixed text that ends the prompt\<close>
  "prompt_request =
     ''Generate detailed documentation including:\<newline>''
     @ ''1. Project overview and purpose\<newline>''
     @ ''2. Installation and setup instructions\<newline>''
     @ ''3. Usage guide with examples\<newline>''
     @ ''4. Architecture and key components\<newline>''
     @ ''5. Development and contribution guidelines\<newline>''
     @ ''6. Deployment instructions\<newline>''
     @ ''7. Troubleshooting section\<newline>\<newline>''
     @ ''Make it comprehensive, professional, and project-specific. Include code examples and configuration details. Format in Markdown.''"

definition server_buildDocumentationPrompt ::
  "server_repoData \<Rightarrow> 'a options_scheme \<Rightarrow> js_error + string" where
  "server_buildDocumentationPrompt repoData opts =
     (case (if js_truthy (s_packageJson repoData) then prompt_package (s_packageJson repoData)
            else Inr []) of
        Inl e \<Rightarrow> Inl e
      | Inr package_text \<Rightarrow>
          Inr (''Generate comprehensive documentation for: ''
               @ s_repoName (s_metadata repoData) @ ''\<newline>\<newline>''
               @ ''Project: '' @ s_repoOwner (s_metadata repoData) @ ''/''
               @ s_repoName (s_metadata repoData) @ ''\<newline>''
               @ ''Language: '' @ s_language (s_metadata repoData) @ ''\<newline>''
               @ ''Framework: '' @ s_framework (s_metadata repoData) @ ''\<newline>''
               @ ''Files: '' @ show_nat (s_fileCount (s_metadata repoData)) @ ''\<newline>\<newline>''
               @ (if s_readme repoData \<noteq> []
                  then ''README:\<newline>'' @ take 800 (s_readme repoData) @ ''\<newline>\<newline>''
                  else [])
               @ package_text
               @ (if s_files repoData \<noteq> []
                  then ''Key Files:\<newline>''
                       @ join_str (map (\<lambda>f. ''- '' @ f_name f) (take 8 (s_files repoData)))
                           [CHR 0x0A]
                       @ ''\<newline>\<newline>''
                  else [])
               @ prompt_request))"

definition server_chat_request ::
  "'c api_client_scheme \<Rightarrow> 'a options_scheme \<Rightarrow> string \<Rightarrow> chat_body timed_request" where
  \<comment> \<open>the request posted for a prompt\<close>
  "server_chat_request svc opts prompt =
     \<lparr>req_url = baseURL svc @ ''/chat/completions'',
      req_headers =
        [(''Authorization'', ''Bearer '' @ apiKey svc), (''Content-Type'', ''application/json'')],
      req_body =
        \<lparr>body_model = selectedModel opts,
         messages =
           [\<lparr>role = ''system'',
             msg_content = ''You are an expert technical writer. Generate comprehensive documentation for software projects. Keep responses under 2000 tokens.''\<rparr>,
            \<lparr>role = ''user'', msg_content = prompt\<rparr>],
         body_temperature =
           (case temperature opts of None \<Rightarrow> 3 / 10 | Some t \<Rightarrow> if t = 0 then 3 / 10 else t),
         max_tokens =
           min (case maxTokens opts of None \<Rightarrow> 800 | Some n \<Rightarrow> if n = 0 then 800 else n) 800\<rparr>,
      req_timeout = 30000\<rparr>"

definition generation_error :: "'e post_error_scheme \<Rightarrow> js_error" where
  \<comment> \<open>the \<open>catch\<close> of \<open>generateDocumentation\<close> for a rejected request\<close>
  "generation_error error =
     (if api_code error = Some 402
      then Error ''Free tier limit reached. Try with a smaller repository or wait for credits to refresh.''
      else if api_code error = Some 408 \<or> err_code error = Some ''ECONNABORTED''
      then Error ''Request timeout. Please try again in a moment.''
      else if api_code error = Some 400
      then Error ''Invalid request. Please check your input and try again.''
      else Error ''Failed to generate documentation with AI. Please try again.'')"

text \<open>
  The generation returns its result or error together with the requests it has
  posted, in order. An error thrown while the prompt is built, or while the answer is
  read, has neither a response nor a code and gets the last message of the \<open>catch\<close>.
\<close>

definition server_generateDocumentation ::
  "'c api_client_scheme \<Rightarrow> (chat_body timed_request \<Rightarrow> post_error + 'u model_chat_data)
     \<Rightarrow> server_repoData \<Rightarrow> 'a options_scheme
     \<Rightarrow> (js_error + 'u generation) \<times> chat_body timed_request list" where
  "server_generateDocumentation svc post repoData opts =
     (case server_buildDocumentationPrompt repoData opts of
        Inl e \<Rightarrow> (Inl (Error ''Failed to generate documentation with AI. Please try again.''), [])
      | Inr prompt \<Rightarrow>
          (case post (server_chat_request svc opts prompt) of
             Inl error \<Rightarrow> (Inl (generation_error error), [server_chat_request svc opts prompt])
           | Inr data \<Rightarrow>
               (case choices data of
                  [] \<Rightarrow>
                    (Inl (Error ''Failed to generate documentation with AI. Please try again.''),
                     [server_chat_request svc opts prompt])
                | c # others \<Rightarrow>
                    (Inr \<lparr>gen_content = choice_content c, gen_model = data_model data,
                          usage = data_usage data, finishReason = finish_reason c\<rparr>,
                     [server_chat_request svc opts prompt]))))"

subsection \<open>Model listing\<close>











text \<open>Upstream answers and an analysis result for the examples.\<close>

definition example_client :: api_client where
  "example_client = \<lparr>apiKey = ''sk-test'', baseURL = ''https://openrouter.ai/api/v1''\<rparr>"

definition example_json_lib :: "json js_lib" where
  \<comment> \<open>payloads are taken as decoded already; every manifest parses to the same object\<close>
  "example_json_lib =
     \<lparr>localeCompare = compare_units, base64_utf8 = (\<lambda>c. c),
      JSON_parse = (\<lambda>t. Some (JObject [(''name'', JString ''demo'')]))\<rparr>"

definition example_full_repo :: full_repo_data where
  "example_full_repo =
     \<lparr>d_name = ''demo'', d_description = None, d_language = Some ''Python'', stargazers_count = 0,
      forks_count = 0, d_size = 1, default_branch = ''main'', d_topics = None,
      d_homepage = None, d_license = None, owner_login = ''octocat'',
      html_url = ''https://github.com/octocat/demo'', updated_at = ''2024-01-01T00:00:00Z'',
      created_at = ''2024-01-01T00:00:00Z'', open_issues_count = 0\<rparr>"

definition file_item :: "string \<Rightarrow> contents_item" where
  "file_item n = \<lparr>ci_type = ''file'', ci_name = n, ci_size = 1, ci_path = n, ci_html_url = []\<rparr>"



definition listing_api :: "string list \<Rightarrow> contents_api" where
  \<comment> \<open>a repository with these files at its root and no README or manifest\<close>
  "listing_api names =
     \<lparr>repo_request = (\<lambda>own rep. Inr example_full_repo),
      contents_request = (\<lambda>own rep. Inr (map file_item names)),
      readme_request = (\<lambda>own rep. Inl (rejected 404)),
      package_request = (\<lambda>own rep. Inl (rejected 404))\<rparr>"

definition example_server_repoData :: server_repoData where
  "example_server_repoData =
     analysis_result example_full_repo
       [\<lparr>f_name = ''manage.py'', f_size = 1, f_language = ''Python'', f_path = ''manage.py'',
         f_url = []\<rparr>]
       [] JNull [''root'' \<mapsto> [''manage.py'']]"

definition serving_upstream :: "chat_body timed_request \<Rightarrow> post_error + unit model_chat_data" where
  \<comment> \<open>an upstream that serves the models of the list and rejects any other identifier\<close>
  "serving_upstream req =
     (if body_model (req_body req) \<in> set reliableModels
      then Inr \<lparr>choices = [\<lparr>choice_content = ''# demo'', finish_reason = ''stop''\<rparr>],
                data_usage = (), data_model = body_model (req_body req)\<rparr>
      else Inl \<lparr>status = Some 400, api_message = Some ''not a valid model ID'',
                message = ''Request failed with status code 400'', api_code = Some 400,
                err_code = Some ''ERR_BAD_REQUEST''\<rparr>)"


section \<open>Properties of the DOCX renderer\<close>

lemma docx_step_children_acc:
  "children (foldl docx_step st ls) = children st @ children (foldl docx_step (st\<lparr>children := []\<rparr>) ls)"
proof (induction ls arbitrary: st)
  case Nil
  show ?case by simp
next
  case (Cons l ls)
  have a: "children (foldl docx_step (docx_step st l) ls)
      = children (docx_step st l) @ children (foldl docx_step ((docx_step st l)\<lparr>children := []\<rparr>) ls)"
    by (rule Cons.IH)
  have b: "children (foldl docx_step (docx_step (st\<lparr>children := []\<rparr>) l) ls)
      = children (docx_step (st\<lparr>children := []\<rparr>) l)
        @ children (foldl docx_step ((docx_step (st\<lparr>children := []\<rparr>) l)\<lparr>children := []\<rparr>) ls)"
    by (rule Cons.IH)
  have c: "(docx_step (st\<lparr>children := []\<rparr>) l)\<lparr>children := []\<rparr> = (docx_step st l)\<lparr>children := []\<rparr>"
    by (simp add: docx_step_def)
  have d: "children (docx_step st l) = children st @ children (docx_step (st\<lparr>children := []\<rparr>) l)"
    by (simp add: docx_step_def)
  show ?case using a b c d by simp
qed

lemma docx_in_block_no_fence:
  "inCodeBlock st \<Longrightarrow> \<forall>l\<in>set ls. \<not> is_fence l \<Longrightarrow>
   children (foldl docx_step st ls) = children st"
proof (induction ls arbitrary: st)
  case Nil
  show ?case by simp
next
  case (Cons l ls)
  have nf: "\<not> startsWith l ''```''" using Cons.prems(2) by (simp add: is_fence_def)
  have st': "docx_step st l = st\<lparr>codeBlockContent := codeBlockContent st @ [l]\<rparr>"
    using nf Cons.prems(1) by (simp add: docx_step_def)
  have "children (foldl docx_step (docx_step st l) ls) = children (docx_step st l)"
    by (rule Cons.IH) (use st' Cons.prems in auto)
  then show ?case using st' by simp
qed

lemma docx_state_after:
  "\<not> inCodeBlock st \<Longrightarrow> codeBlockContent st = [] \<Longrightarrow>
   even (length (filter is_fence ls)) \<Longrightarrow>
   \<not> inCodeBlock (foldl docx_step st ls) \<and> codeBlockContent (foldl docx_step st ls) = []"
  and "inCodeBlock st \<Longrightarrow> odd (length (filter is_fence ls)) \<Longrightarrow>
   \<not> inCodeBlock (foldl docx_step st ls) \<and> codeBlockContent (foldl docx_step st ls) = []"
proof (induction ls arbitrary: st)
  case Nil
  { case 1 then show ?case by simp }
  { case 2 then show ?case by simp }
next
  case (Cons l ls)
  { case 1
    show ?case
    proof (cases "is_fence l")
      case True
      then have s: "docx_step st l = st\<lparr>inCodeBlock := True\<rparr>"
        using 1 by (simp add: docx_step_def is_fence_def)
      have "odd (length (filter is_fence ls))" using 1(3) True by simp
      then show ?thesis using Cons.IH(2)[of "docx_step st l"] s by simp
    next
      case False
      then have s: "docx_step st l = st\<lparr>children := children st @ [line_paragraph l]\<rparr>"
        using 1 by (simp add: docx_step_def is_fence_def)
      have "even (length (filter is_fence ls))" using 1(3) False by simp
      then show ?thesis using Cons.IH(1)[of "docx_step st l"] s 1 by simp
    qed }
  { case 2
    show ?case
    proof (cases "is_fence l")
      case True
      then have s: "docx_step st l = st\<lparr>children := children st @ [code_paragraph (codeBlockContent st)],
                 inCodeBlock := False, codeBlockContent := []\<rparr>"
        using 2 by (simp add: docx_step_def is_fence_def)
      have "even (length (filter is_fence ls))" using 2(2) True by simp
      then show ?thesis using Cons.IH(1)[of "docx_step st l"] s by simp
    next
      case False
      then have s: "docx_step st l = st\<lparr>codeBlockContent := codeBlockContent st @ [l]\<rparr>"
        using 2 by (simp add: docx_step_def is_fence_def)
      have "odd (length (filter is_fence ls))" using 2(2) False by simp
      then show ?thesis using Cons.IH(2)[of "docx_step st l"] s 2 by simp
    qed }
qed

lemma docx_children_append:
  assumes "even (length (filter is_fence pre))"
  shows "docx_children (pre @ rest) = docx_children pre @ docx_children rest"
proof -
  let ?s = "foldl docx_step docx_init pre"
  have st: "\<not> inCodeBlock ?s \<and> codeBlockContent ?s = []"
    using docx_state_after(1)[of docx_init pre] assms by (simp add: docx_init_def)
  then have eq: "?s\<lparr>children := []\<rparr> = docx_init"
    by (simp add: docx_init_def)
  have "docx_children (pre @ rest) = children (foldl docx_step ?s rest)"
    by (simp add: docx_children_def)
  also have "\<dots> = children ?s @ children (foldl docx_step (?s\<lparr>children := []\<rparr>) rest)"
    by (rule docx_step_children_acc)
  finally show ?thesis using eq by (simp add: docx_children_def)
qed

lemma all_dropWhile: "(\<forall>x\<in>set (dropWhile P s). P x) \<longleftrightarrow> (\<forall>x\<in>set s. P x)"
  by (induction s) auto

lemma trim_empty_iff: "trim s = [] \<longleftrightarrow> (\<forall>c\<in>set s. isWhiteSpace c)"
  by (simp add: trim_def dropWhile_eq_Nil_conv all_dropWhile)

lemma heading_marker_Some:
  "heading_marker line = Some (n, t) \<longleftrightarrow>
     1 \<le> n \<and> n \<le> 6 \<and> line = replicate n (CHR ''#'') @ CHR '' '' # t"
proof
  assume h: "heading_marker line = Some (n, t)"
  let ?tw = "takeWhile (\<lambda>c. c = CHR ''#'') line"
  from h have n: "n = length ?tw" "1 \<le> n" "n \<le> 6" and sp: "take 1 (drop n line) = '' ''"
    and t: "t = drop (Suc n) line"
    by (auto simp: heading_marker_def Let_def split: if_splits)
  have "\<forall>y\<in>set ?tw. y = CHR ''#''" by (auto dest: set_takeWhileD)
  then have tw: "replicate n (CHR ''#'') = ?tw"
    unfolding n(1) by (rule replicate_length_same)
  have "?tw = take n line" unfolding n(1) by (rule takeWhile_eq_take)
  then have l: "line = ?tw @ drop n line" by simp
  from sp obtain r where r: "drop n line = CHR '' '' # r"
    by (cases "drop n line") auto
  have "drop (Suc n) line = tl (drop n line)" by (simp add: drop_Suc tl_drop)
  then have "r = t" using r t by simp
  then show "1 \<le> n \<and> n \<le> 6 \<and> line = replicate n (CHR ''#'') @ CHR '' '' # t"
    using n l r tw by simp
next
  assume a: "1 \<le> n \<and> n \<le> 6 \<and> line = replicate n (CHR ''#'') @ CHR '' '' # t"
  have "takeWhile (\<lambda>c. c = CHR ''#'') (replicate n (CHR ''#'') @ CHR '' '' # t) = replicate n (CHR ''#'')"
    by (subst takeWhile_append2) auto
  then have tw: "takeWhile (\<lambda>c. c = CHR ''#'') line = replicate n (CHR ''#'')"
    using a by simp
  show "heading_marker line = Some (n, t)"
    using a unfolding heading_marker_def Let_def tw by simp
qed

lemma startsWith_append: "startsWith s p \<longleftrightarrow> s = p @ drop (length p) s"
proof
  assume "startsWith s p"
  then have "take (length p) s = p" by (simp add: startsWith_def)
  then show "s = p @ drop (length p) s" by (metis append_take_drop_id)
next
  assume "s = p @ drop (length p) s"
  then have "take (length p) s = take (length p) (p @ drop (length p) s)" by simp
  then show "startsWith s p" by (simp add: startsWith_def)
qed

lemma startsWith_hashes:
  "startsWith line (replicate n (CHR ''#'') @ '' '') \<longleftrightarrow>
     line = replicate n (CHR ''#'') @ CHR '' '' # drop (Suc n) line"
  using startsWith_append[of line "replicate n (CHR ''#'') @ '' ''"] by simp

lemma heading_startsWith:
  "1 \<le> n \<Longrightarrow> n \<le> 6 \<Longrightarrow>
   startsWith line (replicate n (CHR ''#'') @ '' '') \<longleftrightarrow> heading_marker line = Some (n, drop (Suc n) line)"
  by (simp add: startsWith_hashes heading_marker_Some)

lemma line_paragraph_heading:
  "line_paragraph (''# '' @ t) = heading_paragraph HEADING_1 400 t"
  "line_paragraph (''## '' @ t) = heading_paragraph HEADING_2 300 t"
  "line_paragraph (''### '' @ t) = heading_paragraph HEADING_3 200 t"
  "line_paragraph (''#### '' @ t) = heading_paragraph HEADING_4 200 t"
  "line_paragraph (''##### '' @ t) = heading_paragraph HEADING_5 200 t"
  "line_paragraph (''###### '' @ t) = heading_paragraph HEADING_6 200 t"
  by (simp_all add: line_paragraph_def startsWith_def substring_def)

lemma element_of_heading:
  "element_of (heading_paragraph lvl b t) = Heading (level_number lvl) t"
  by (simp add: element_of_def heading_paragraph_def)

lemma line_paragraph_no_heading:
  assumes "\<not> startsWith line ''# ''" "\<not> startsWith line ''## ''" "\<not> startsWith line ''### ''"
    "\<not> startsWith line ''#### ''" "\<not> startsWith line ''##### ''" "\<not> startsWith line ''###### ''"
  shows "line_paragraph line =
     (if startsWith line ''> '' then blockquote_paragraph (substring line 2)
      else if trim line = [] then empty_paragraph
      else regular_paragraph line)"
  unfolding line_paragraph_def using assms by simp

lemma line_paragraph_spec: "element_of (line_paragraph line) = spec_element line"
proof (cases "heading_marker line")
  case None
  have no: "\<not> startsWith line (replicate n (CHR ''#'') @ '' '')" if "1 \<le> n" "n \<le> 6" for n
    using heading_startsWith[OF that, of line] None by simp
  have h1: "\<not> startsWith line ''# ''" using no[of 1] by simp
  have h2: "\<not> startsWith line ''## ''" using no[of 2] by (simp add: numeral_eq_Suc)
  have h3: "\<not> startsWith line ''### ''" using no[of 3] by (simp add: numeral_eq_Suc)
  have h4: "\<not> startsWith line ''#### ''" using no[of 4] by (simp add: numeral_eq_Suc)
  have h5: "\<not> startsWith line ''##### ''" using no[of 5] by (simp add: numeral_eq_Suc)
  have h6: "\<not> startsWith line ''###### ''" using no[of 6] by (simp add: numeral_eq_Suc)
  have q: "startsWith line ''> '' \<longleftrightarrow> take 2 line = ''> ''"
    by (simp add: startsWith_def numeral_2_eq_2)
  have e: "element_of (blockquote_paragraph x) = Indented x" "element_of empty_paragraph = Empty"
    "element_of (regular_paragraph x) = Plain x" for x
    by (simp_all add: element_of_def blockquote_paragraph_def empty_paragraph_def regular_paragraph_def)
  show ?thesis
    unfolding line_paragraph_no_heading[OF h1 h2 h3 h4 h5 h6] spec_element_def None
    by (simp add: q trim_empty_iff e substring_def)
next
  case (Some a)
  obtain n t where a: "a = (n, t)" by (cases a)
  with Some have hm: "heading_marker line = Some (n, t)" by simp
  then have n: "1 \<le> n" "n \<le> 6" and l: "line = replicate n (CHR ''#'') @ CHR '' '' # t"
    by (simp_all add: heading_marker_Some)
  from n consider "n = 1" | "n = 2" | "n = 3" | "n = 4" | "n = 5" | "n = 6" by arith
  then have "element_of (line_paragraph line) = Heading n t"
  proof cases
    case 1
    then have "line = ''# '' @ t" using l by simp
    then show ?thesis using 1 by (simp only: line_paragraph_heading element_of_heading level_number.simps)
  next
    case 2
    then have "line = ''## '' @ t" using l by (simp add: numeral_eq_Suc)
    then show ?thesis using 2 by (simp only: line_paragraph_heading element_of_heading level_number.simps)
  next
    case 3
    then have "line = ''### '' @ t" using l by (simp add: numeral_eq_Suc)
    then show ?thesis using 3 by (simp only: line_paragraph_heading element_of_heading level_number.simps)
  next
    case 4
    then have "line = ''#### '' @ t" using l by (simp add: numeral_eq_Suc)
    then show ?thesis using 4 by (simp only: line_paragraph_heading element_of_heading level_number.simps)
  next
    case 5
    then have "line = ''##### '' @ t" using l by (simp add: numeral_eq_Suc)
    then show ?thesis using 5 by (simp only: line_paragraph_heading element_of_heading level_number.simps)
  next
    case 6
    then have "line = ''###### '' @ t" using l by (simp add: numeral_eq_Suc)
    then show ?thesis using 6 by (simp only: line_paragraph_heading element_of_heading level_number.simps)
  qed
  then show ?thesis using hm by (simp add: spec_element_def)
qed


lemma docx_no_fence_acc:
  "\<not> inCodeBlock st \<Longrightarrow> \<forall>l\<in>set ls. \<not> is_fence l \<Longrightarrow>
   children (foldl docx_step st ls) = children st @ map line_paragraph ls"
proof (induction ls arbitrary: st)
  case Nil
  show ?case by simp
next
  case (Cons l ls)
  have nf: "\<not> startsWith l ''```''" using Cons.prems(2) by (simp add: is_fence_def)
  have s: "docx_step st l = st\<lparr>children := children st @ [line_paragraph l]\<rparr>"
    using nf Cons.prems(1) by (simp add: docx_step_def)
  have "children (foldl docx_step (docx_step st l) ls) = children (docx_step st l) @ map line_paragraph ls"
    by (rule Cons.IH) (use s Cons.prems in auto)
  then show ?case using s by simp
qed

lemma docx_children_no_fence:
  "\<forall>l\<in>set ls. \<not> is_fence l \<Longrightarrow> docx_children ls = map line_paragraph ls"
  using docx_no_fence_acc[of docx_init ls] by (simp add: docx_children_def docx_init_def)

lemma docx_in_block_content:
  "inCodeBlock st \<Longrightarrow> \<forall>l\<in>set ls. \<not> is_fence l \<Longrightarrow>
   foldl docx_step st ls = st\<lparr>codeBlockContent := codeBlockContent st @ ls\<rparr>"
proof (induction ls arbitrary: st)
  case Nil
  show ?case by simp
next
  case (Cons l ls)
  have nf: "\<not> startsWith l ''```''" using Cons.prems(2) by (simp add: is_fence_def)
  have s: "docx_step st l = st\<lparr>codeBlockContent := codeBlockContent st @ [l]\<rparr>"
    using nf Cons.prems(1) by (simp add: docx_step_def)
  have "foldl docx_step (docx_step st l) ls
      = (docx_step st l)\<lparr>codeBlockContent := codeBlockContent (docx_step st l) @ ls\<rparr>"
    by (rule Cons.IH) (use s Cons.prems in auto)
  then show ?case using s by simp
qed

lemma docx_children_block:
  assumes "is_fence op" "\<forall>l\<in>set body. \<not> is_fence l" "is_fence cl"
  shows "docx_children (op # body @ cl # post) = code_paragraph body # docx_children post"
proof -
  let ?s1 = "docx_init\<lparr>inCodeBlock := True\<rparr>"
  have s1: "docx_step docx_init op = ?s1"
    using assms(1) by (simp add: docx_step_def is_fence_def docx_init_def)
  have s2: "foldl docx_step ?s1 body = ?s1\<lparr>codeBlockContent := body\<rparr>"
    using docx_in_block_content[of ?s1 body] assms(2) by (simp add: docx_init_def)
  have s3: "docx_step (?s1\<lparr>codeBlockContent := body\<rparr>) cl = docx_init\<lparr>children := [code_paragraph body]\<rparr>"
    using assms(3) by (simp add: docx_step_def is_fence_def docx_init_def)
  have "docx_children (op # body @ cl # post)
      = children (foldl docx_step (docx_init\<lparr>children := [code_paragraph body]\<rparr>) post)"
    by (simp add: docx_children_def s1 s2 s3)
  also have "\<dots> = [code_paragraph body] @ children (foldl docx_step docx_init post)"
    using docx_step_children_acc[of "docx_init\<lparr>children := [code_paragraph body]\<rparr>" post]
    by (simp add: docx_init_def)
  finally show ?thesis by (simp add: docx_children_def)
qed

lemma no_fence_even: "\<forall>l\<in>set ls. \<not> is_fence l \<Longrightarrow> filter is_fence ls = []"
  by (induction ls) auto

lemma element_of_code: "element_of (code_paragraph body) = Literal (join_str body [CHR 0x0A])"
  by (simp add: element_of_def code_paragraph_def)

lemma document_elements_markdownToDOCX:
  "document_elements (markdownToDOCX markdown)
     = map element_of (docx_children (split_str markdown (CHR 0x0A)))"
  by (simp add: document_elements_def markdownToDOCX_def)

lemma docx_children_Cons_no_fence:
  "\<not> is_fence l \<Longrightarrow> docx_children (l # ls) = line_paragraph l # docx_children ls"
  using docx_children_append[of "[l]" ls] docx_children_no_fence[of "[l]"] by simp

lemma docx_children_unclosed:
  assumes "is_fence l" "\<forall>x\<in>set ls. \<not> is_fence x"
  shows "docx_children (l # ls) = []"
proof -
  have "docx_children (l # ls) = children (foldl docx_step (docx_init\<lparr>inCodeBlock := True\<rparr>) ls)"
    using assms(1) by (simp add: docx_children_def docx_step_def is_fence_def docx_init_def)
  also have "\<dots> = []"
    using docx_in_block_no_fence[of "docx_init\<lparr>inCodeBlock := True\<rparr>" ls] assms(2)
    by (simp add: docx_init_def)
  finally show ?thesis .
qed

lemma docx_children_Nil: "docx_children [] = []"
  by (simp add: docx_children_def docx_init_def)

lemma docx_children_unclosed_tail: "unclosed_tail rest \<Longrightarrow> docx_children rest = []"
  by (cases rest) (simp_all add: docx_children_Nil docx_children_unclosed list_all_iff)

lemma docx_children_blocks:
  "list_all well_formed blocks \<Longrightarrow>
   map element_of (docx_children (concat (map block_lines blocks) @ rest))
     = map render_block blocks @ map element_of (docx_children rest)"
proof (induction blocks)
  case Nil
  show ?case by simp
next
  case (Cons b blocks)
  let ?tail = "concat (map block_lines blocks) @ rest"
  have ih: "map element_of (docx_children ?tail)
      = map render_block blocks @ map element_of (docx_children rest)"
    using Cons by simp
  show ?case
  proof (cases b)
    case (Line l)
    then have "\<not> is_fence l" using Cons.prems by simp
    then have "docx_children (l # ?tail) = line_paragraph l # docx_children ?tail"
      by (rule docx_children_Cons_no_fence)
    then show ?thesis using Line ih by (simp add: line_paragraph_spec)
  next
    case (Fenced fence1 body fence2)
    then have w: "is_fence fence1" "\<forall>l\<in>set body. \<not> is_fence l" "is_fence fence2"
      using Cons.prems by (simp_all add: list_all_iff)
    have "docx_children (fence1 # body @ fence2 # ?tail) = code_paragraph body # docx_children ?tail"
      by (rule docx_children_block[OF w])
    then show ?thesis using Fenced ih by (simp add: element_of_code)
  qed
qed

lemma lines_blocks_cover:
  "\<exists>blocks rest. list_all well_formed blocks
     \<and> ls = concat (map block_lines blocks) @ rest \<and> unclosed_tail rest"
proof (induction ls rule: length_induct)
  case (1 ls)
  show ?case
  proof (cases ls)
    case Nil
    have "list_all well_formed [] \<and> ls = concat (map block_lines []) @ [] \<and> unclosed_tail []"
      using Nil by simp
    then show ?thesis by blast
  next
    case (Cons l ls')
    show ?thesis
    proof (cases "is_fence l")
      case False
      obtain blocks rest where b: "list_all well_formed blocks"
        "ls' = concat (map block_lines blocks) @ rest" "unclosed_tail rest"
        using 1 Cons by auto
      have "list_all well_formed (Line l # blocks)
          \<and> ls = concat (map block_lines (Line l # blocks)) @ rest \<and> unclosed_tail rest"
        using b False Cons by simp
      then show ?thesis by blast
    next
      case True
      let ?body = "takeWhile (\<lambda>x. \<not> is_fence x) ls'"
      show ?thesis
      proof (cases "dropWhile (\<lambda>x. \<not> is_fence x) ls'")
        case Nil
        then have "\<forall>x\<in>set ls'. \<not> is_fence x" by (simp add: dropWhile_eq_Nil_conv)
        then have "list_all well_formed [] \<and> ls = concat (map block_lines []) @ ls \<and> unclosed_tail ls"
          using True Cons by (simp add: list_all_iff)
        then show ?thesis by blast
      next
        case (Cons cl rest')
        have ls': "ls' = ?body @ cl # rest'"
          using Cons by (metis takeWhile_dropWhile_id)
        have cl: "is_fence cl" using Cons by (metis hd_dropWhile list.distinct(1) list.sel(1))
        have body: "\<forall>x\<in>set ?body. \<not> is_fence x" by (auto dest: set_takeWhileD)
        have "length rest' < length ls" using ls' \<open>ls = l # ls'\<close>
          by (metis length_Cons length_append less_Suc_eq trans_less_add2)
        then obtain blocks rest where b: "list_all well_formed blocks"
          "rest' = concat (map block_lines blocks) @ rest" "unclosed_tail rest"
          using 1 by blast
        have "ls = concat (map block_lines (Fenced l ?body cl # blocks)) @ rest"
          using ls' b(2) \<open>ls = l # ls'\<close> by simp
        then have "list_all well_formed (Fenced l ?body cl # blocks)
            \<and> ls = concat (map block_lines (Fenced l ?body cl # blocks)) @ rest \<and> unclosed_tail rest"
          using b True cl body by (simp add: list_all_iff)
        then show ?thesis by blast
      qed
    qed
  qed
qed

text \<open>
  Claim C1, as amended. Every Markdown string is a sequence of blocks (single lines
  and fenced blocks) followed by nothing or by a fence line that is never closed and
  the lines after it. The elements of the document that \<open>markdownToDOCX\<close> builds are
  those of the blocks, one each and in order: a line of one to six \<open>#\<close> and a space
  gives a heading of that level with the rest of the line as text, \<open>>\<close> and a space
  give an indented paragraph with the text after the marker, a blank line gives an
  empty paragraph, any other line gives a plain paragraph with the line unchanged,
  and a fenced block gives one literal-text paragraph of the lines between its
  fences. The unclosed fence line and the lines after it give no element.
\<close>

theorem markdownToDOCX_renders_blocks:
  assumes "list_all well_formed blocks"
    and "split_str markdown (CHR 0x0A) = concat (map block_lines blocks) @ rest"
    and "unclosed_tail rest"
  shows "document_elements (markdownToDOCX markdown) = map render_block blocks"
proof -
  have "map element_of (docx_children (concat (map block_lines blocks) @ rest))
      = map render_block blocks @ map element_of (docx_children rest)"
    using assms(1) by (rule docx_children_blocks)
  then show ?thesis
    using assms(2) docx_children_unclosed_tail[OF assms(3)]
    by (simp add: document_elements_markdownToDOCX)
qed

text \<open>
  The claim as stated fails: after a fence line that is never closed, a heading line
  and a plain line give no element, where the line rules give a heading and a plain
  paragraph.
\<close>

theorem line_rules_counterexample:
  "document_elements (markdownToDOCX ''```\<newline># Title\<newline>text'') = []
   \<and> spec_element ''# Title'' = Heading 1 ''Title''
   \<and> spec_element ''text'' = Plain ''text''"
  by (simp add: document_elements_def markdownToDOCX_def docx_children_def docx_step_def
      docx_init_def split_str.simps startsWith_def spec_element_def heading_marker_def
      isWhiteSpace_def)

theorem markdownToDOCX_renders_blocks_witness:
  "document_elements (markdownToDOCX ''# Title\<newline>```js\<newline>code here\<newline>more\<newline>```\<newline>\<newline>> note\<newline>text\<newline>```\<newline>## lost'')
     = [Heading 1 ''Title'', Literal ''code here\<newline>more'', Empty, Indented ''note'', Plain ''text'']"
  using markdownToDOCX_renders_blocks[of
      "[Line ''# Title'', Fenced ''```js'' [''code here'', ''more''] ''```'', Line [],
        Line ''> note'', Line ''text'']"
      "''# Title\<newline>```js\<newline>code here\<newline>more\<newline>```\<newline>\<newline>> note\<newline>text\<newline>```\<newline>## lost''"
      "[''```'', ''## lost'']"]
  by (simp add: split_str.simps is_fence_def startsWith_def spec_element_def heading_marker_def
      isWhiteSpace_def)

text \<open>
  Claim C10. When the number of fence lines is odd, the last fence line opens a block
  that is never closed, and the lines after it leave no trace: the document is the one
  built from the lines before that fence alone.
\<close>

theorem unclosed_fence_drops_rest:
  assumes "split_str markdown (CHR 0x0A) = pre @ fence # post"
    and "odd (length (filter is_fence (split_str markdown (CHR 0x0A))))"
    and "is_fence fence" and "\<forall>l\<in>set post. \<not> is_fence l"
  shows "markdownToDOCX markdown = \<lparr>sections = [\<lparr>properties = (), sect_children = docx_children pre\<rparr>]\<rparr>"
proof -
  have ev: "even (length (filter is_fence pre))"
    using assms by (simp add: no_fence_even)
  have "docx_children (fence # post) = children (foldl docx_step (docx_init\<lparr>inCodeBlock := True\<rparr>) post)"
    using assms(3) by (simp add: docx_children_def docx_step_def is_fence_def docx_init_def)
  also have "\<dots> = []"
    using docx_in_block_no_fence[of "docx_init\<lparr>inCodeBlock := True\<rparr>" post] assms(4)
    by (simp add: docx_init_def)
  finally have tail: "docx_children (fence # post) = []" .
  have "docx_children (pre @ fence # post) = docx_children pre @ docx_children (fence # post)"
    by (rule docx_children_append[OF ev])
  then show ?thesis using assms(1) tail by (simp add: markdownToDOCX_def)
qed

lemmas docx_eval = split_str.simps is_fence_def startsWith_def docx_children_def docx_step_def
  docx_init_def line_paragraph_def substring_def trim_def isWhiteSpace_def element_of_def
  heading_paragraph_def blockquote_paragraph_def empty_paragraph_def regular_paragraph_def
  code_paragraph_def spec_element_def heading_marker_def

theorem unclosed_fence_drops_rest_witness:
  "markdownToDOCX ''# A\<newline>```\<newline>code\<newline>## lost''
     = \<lparr>sections = [\<lparr>properties = (), sect_children = [heading_paragraph HEADING_1 400 ''A'']\<rparr>]\<rparr>"
  using unclosed_fence_drops_rest[of "''# A\<newline>```\<newline>code\<newline>## lost''" "[''# A'']" "''```''"
      "[''code'', ''## lost'']"]
  by (simp add: docx_eval)

section \<open>Properties of the PDF export\<close>

lemma split_str_not_Nil: "split_str s sep \<noteq> []"
  by (induction s) (auto split: list.splits)

lemma split_str_append_last:
  "sep \<notin> set u \<Longrightarrow>
   split_str (t @ u) sep = butlast (split_str t sep) @ [last (split_str t sep) @ u]"
proof (induction t)
  case Nil
  have "split_str u sep = [u]" using Nil by (induction u) auto
  then show ?case by simp
next
  case (Cons c t)
  obtain l ls where s: "split_str t sep = l # ls"
    using split_str_not_Nil[of t sep] by (cases "split_str t sep") auto
  obtain l' ls' where s': "split_str (t @ u) sep = l' # ls'"
    using split_str_not_Nil[of "t @ u" sep] by (cases "split_str (t @ u) sep") auto
  show ?case
  proof (cases "c = sep")
    case True
    then show ?thesis using Cons s by simp
  next
    case False
    show ?thesis using Cons s s' False by (cases ls) auto
  qed
qed

lemma join_str_snoc:
  "join_str (xs @ [x]) sep = (if xs = [] then x else join_str xs sep @ sep @ x)"
  by (induction xs sep rule: join_str.induct) auto

lemma normalize_ends:
  assumes "u \<noteq> []" "CHR ''/'' \<notin> set u" "last u \<noteq> CHR ''.''"
  shows "\<exists>stem. normalize (t @ u) = stem @ u"
proof -
  let ?segs = "split_str t (CHR ''/'')"
  let ?X = "last ?segs @ u"
  let ?abs = "hd (t @ u) = CHR ''/''"
  let ?kept = "foldl (normalize_step (\<not> ?abs)) [] (butlast ?segs)"
  have sp: "split_str (t @ u) (CHR ''/'') = butlast ?segs @ [?X]"
    by (rule split_str_append_last[OF assms(2)])
  have X: "?X \<noteq> []" "?X \<noteq> ''.''" "?X \<noteq> ''..''"
  proof -
    show "?X \<noteq> []" using assms(1) by simp
    have "last ?X = last u" using assms(1) by simp
    then have "last ?X \<noteq> CHR ''.''" using assms(3) by simp
    then show "?X \<noteq> ''.''" "?X \<noteq> ''..''" by auto
  qed
  have k: "foldl (normalize_step (\<not> ?abs)) [] (split_str (t @ u) (CHR ''/'')) = ?kept @ [?X]"
    using X by (simp add: sp normalize_step_def)
  have j: "join_str (?kept @ [?X]) ''/'' = (if ?kept = [] then ?X else join_str ?kept ''/'' @ ''/'' @ ?X)"
    by (rule join_str_snoc)
  then obtain pre where res: "join_str (?kept @ [?X]) ''/'' = pre @ u"
    by (cases "?kept = []") auto
  have ne: "join_str (?kept @ [?X]) ''/'' \<noteq> []" using res assms(1) by simp
  have "last (t @ u) = last u" using assms(1) by simp
  moreover have "last u \<in> set u" using assms(1) by simp
  ultimately have tr: "last (t @ u) \<noteq> CHR ''/''" using assms(2) by metis
  have "normalize (t @ u) = (if ?abs then ''/'' else []) @ pre @ u"
    using assms(1) ne tr unfolding normalize_def Let_def k res[symmetric]
    by (simp add: res)
  then show ?thesis by (metis append.assoc)
qed

lemma path_join_html:
  "\<exists>stem. path_join dir (filename @ ''.html'') = stem @ ''.html''"
proof -
  have u: "''.html'' \<noteq> []" "CHR ''/'' \<notin> set ''.html''" "last ''.html'' \<noteq> CHR ''.''" by simp_all
  show ?thesis
  proof (cases "dir = []")
    case True
    then have "path_join dir (filename @ ''.html'') = normalize (filename @ ''.html'')"
      by (simp add: path_join_def)
    then show ?thesis using normalize_ends[OF u, of filename] by simp
  next
    case False
    then have "path_join dir (filename @ ''.html'') = normalize ((dir @ ''/'' @ filename) @ ''.html'')"
      by (simp add: path_join_def)
    then show ?thesis using normalize_ends[OF u, of "dir @ ''/'' @ filename"] by simp
  qed
qed

text \<open>
  Claim C9. For every content, when the conversion and the write succeed,
  \<open>exportToPDF\<close> writes the styled page into one file whose path ends in \<open>.html\<close>
  and leaves every other file as it was; the descriptor has the format \<open>pdf\<close>, a
  \<open>url\<close> and a \<open>filePath\<close> that end in \<open>.html\<close>, the size in bytes of the file
  written, and the note that the page is to be printed to PDF by the browser or a
  PDF service.
\<close>

theorem exportToPDF_writes_html:
  assumes "marked md = Inr html"
    and "writable fs (path_join (uploadDir svc) (filename @ ''.html''))"
  shows "\<exists>d fs'. exportToPDF svc marked fs md filename = (Inr d, fs')
     \<and> exp_format d = ''pdf''
     \<and> exp_url d = ''/uploads/'' @ filename @ ''.html''
     \<and> (\<exists>stem. filePath d = stem @ ''.html'')
     \<and> file_content fs' (filePath d) = Some (html_before @ html @ html_after)
     \<and> (\<forall>p. p \<noteq> filePath d \<longrightarrow> file_content fs' p = file_content fs p)
     \<and> exp_size d = utf8_length (html_before @ html @ html_after)
     \<and> exp_note d = Some ''HTML file generated. Use browser print to PDF or a PDF service.''"
proof -
  let ?p = "path_join (uploadDir svc) (filename @ ''.html'')"
  let ?txt = "html_before @ html @ html_after"
  let ?fs' = "fs\<lparr>file_content := (file_content fs)(?p \<mapsto> ?txt)\<rparr>"
  let ?d = "\<lparr>exp_format = ''pdf'', exp_url = ''/uploads/'' @ filename @ ''.html'',
             filePath = ?p, exp_size = utf8_length ?txt,
             exp_note = Some ''HTML file generated. Use browser print to PDF or a PDF service.''\<rparr>"
  have e: "exportToPDF svc marked fs md filename = (Inr ?d, ?fs')"
    using assms
    by (simp add: exportToPDF_def markdownToHTML_def writeFile_def statSync_size_def Let_def)
  have s: "\<exists>stem. filePath ?d = stem @ ''.html''"
    using path_join_html[of "uploadDir svc" filename] by simp
  show ?thesis
    apply (rule exI[of _ ?d])
    apply (rule exI[of _ ?fs'])
    using e s by simp
qed

theorem exportToPDF_writes_html_witness:
  "\<exists>d fs'. exportToPDF example_export example_marked empty_fs ''# Hi'' ''doc-1'' = (Inr d, fs')
     \<and> exp_format d = ''pdf'' \<and> exp_url d = ''/uploads/doc-1.html''
     \<and> filePath d = ''uploads/doc-1.html''
     \<and> file_content fs' ''uploads/doc-1.html'' = Some (html_before @ ''<p># Hi</p>\<newline>'' @ html_after)
     \<and> exp_size d = 2097"
proof -
  have m: "example_marked ''# Hi'' = Inr ''<p># Hi</p>\<newline>''" by (simp add: example_marked_def)
  have w: "writable empty_fs (path_join (uploadDir example_export) (''doc-1'' @ ''.html''))"
    by (simp add: empty_fs_def)
  have n: "utf8_length (html_before @ ''<p># Hi</p>\<newline>'' @ html_after) = 2097" by code_simp
  have f: "filePath (projr (fst (exportToPDF example_export example_marked empty_fs ''# Hi'' ''doc-1'')))
      = ''uploads/doc-1.html''" by code_simp
  from exportToPDF_writes_html[of example_marked "''# Hi''" "''<p># Hi</p>\<newline>''" empty_fs
      example_export "''doc-1''", OF m w] obtain d fs' where t:
    "exportToPDF example_export example_marked empty_fs ''# Hi'' ''doc-1'' = (Inr d, fs')"
    "exp_format d = ''pdf''" "exp_url d = ''/uploads/'' @ ''doc-1'' @ ''.html''"
    "file_content fs' (filePath d) = Some (html_before @ ''<p># Hi</p>\<newline>'' @ html_after)"
    "exp_size d = utf8_length (html_before @ ''<p># Hi</p>\<newline>'' @ html_after)"
    by blast
  have "filePath d = ''uploads/doc-1.html''" using f t(1) by simp
  then show ?thesis using t n by auto
qed

lemma exportToPDF_failure:
  "(\<exists>e. marked md = Inl e) \<or> \<not> writable fs (path_join (uploadDir svc) (filename @ ''.html'')) \<Longrightarrow>
   exportToPDF svc marked fs md filename = (Inl (Error ''Failed to export to PDF''), fs)"
  by (auto simp: exportToPDF_def markdownToHTML_def writeFile_def Let_def split: sum.splits)

section \<open>Properties of the GitHub service\<close>

lemma takeWhile_notSlash:
  "CHR ''/'' \<notin> set a \<Longrightarrow> takeWhile notSlash (a @ CHR ''/'' # b) = a"
  "CHR ''/'' \<notin> set a \<Longrightarrow> dropWhile notSlash (a @ CHR ''/'' # b) = CHR ''/'' # b"
  by (induction a) (auto simp: notSlash_def)








lemma tree_segment_Some:
  assumes "b \<noteq> []" "CHR ''/'' \<notin> set b" "suffix = [] \<or> hd suffix = CHR ''/''"
  shows "tree_segment (''/tree/'' @ b @ suffix) = Some b"
proof -
  have "takeWhile notSlash (b @ suffix) = b"
  proof (cases suffix)
    case Nil
    then show ?thesis using assms(2) by (auto simp: notSlash_def)
  next
    case (Cons c cs)
    then have "suffix = CHR ''/'' # cs" using assms(3) by simp
    then show ?thesis using assms(2) by (simp add: takeWhile_notSlash)
  qed
  then show ?thesis using assms(1) by (simp add: tree_segment_def startsWith_def)
qed


lemmas url_eval = parseGitHubUrl_def regexp_match.simps match_here_def startsWith_def
  tree_segment_def notSlash_def replace_first.simps Let_def


lemma parseGitHubUrl_examples:
  "parseGitHubUrl ''https://github.com/user/site.github.io'' = Inr \<lparr>owner = ''user'', repo = ''sitehub.io'', branch = ''main''\<rparr>"
  "parseGitHubUrl ''https://github.com/a/b.git'' = Inr \<lparr>owner = ''a'', repo = ''b'', branch = ''main''\<rparr>"
  "parseGitHubUrl ''github.com/a'' = Inl (Error ''Invalid GitHub URL format'')"
  by (simp_all add: url_eval)

lemma includes_str_occurs: "includes_str s p \<longleftrightarrow> occurs_in p s"
proof (induction s)
  case Nil
  show ?case by (auto simp: occurs_in_def)
next
  case (Cons c s)
  show ?case
  proof
    assume "includes_str (c # s) p"
    then consider "startsWith (c # s) p" | "includes_str s p" by auto
    then show "occurs_in p (c # s)"
    proof cases
      case 1
      then have "c # s = [] @ p @ drop (length p) (c # s)"
        by (simp add: startsWith_append[symmetric])
      then show ?thesis unfolding occurs_in_def by blast
    next
      case 2
      then obtain b a where "s = b @ p @ a" using Cons.IH by (auto simp: occurs_in_def)
      then have "c # s = (c # b) @ p @ a" by simp
      then show ?thesis unfolding occurs_in_def by blast
    qed
  next
    assume "occurs_in p (c # s)"
    then obtain b a where d: "c # s = b @ p @ a" by (auto simp: occurs_in_def)
    show "includes_str (c # s) p"
    proof (cases b)
      case Nil
      then have "take (length p) (c # s) = p" using d by simp
      then show ?thesis by (simp add: startsWith_def)
    next
      case (Cons c' b')
      then have "s = b' @ p @ a" using d by simp
      then have "occurs_in p s" unfolding occurs_in_def by blast
      then show ?thesis using Cons.IH by simp
    qed
  qed
qed

lemma entry_matches_code:
  "entry_matches fileName entry
     = (case entry of (fw, indicators) \<Rightarrow> list_ex (\<lambda>indicator. includes_str fileName indicator) indicators)"
  by (cases entry) (simp add: entry_matches_def list_ex_iff includes_str_occurs)

lemma find_Some_decomp:
  "find P xs = Some x \<longleftrightarrow> (\<exists>earlier later. xs = earlier @ x # later \<and> P x \<and> (\<forall>y\<in>set earlier. \<not> P y))"
proof (induction xs)
  case Nil
  show ?case by simp
next
  case (Cons a xs)
  show ?case
  proof (cases "P a")
    case True
    show ?thesis
    proof
      assume "find P (a # xs) = Some x"
      then have "x = a" using True by simp
      then have "a # xs = [] @ x # xs \<and> P x \<and> (\<forall>y\<in>set []. \<not> P y)" using True by simp
      then show "\<exists>earlier later. a # xs = earlier @ x # later \<and> P x \<and> (\<forall>y\<in>set earlier. \<not> P y)"
        by blast
    next
      assume "\<exists>earlier later. a # xs = earlier @ x # later \<and> P x \<and> (\<forall>y\<in>set earlier. \<not> P y)"
      then obtain e l where d: "a # xs = e @ x # l" "P x" "\<forall>y\<in>set e. \<not> P y" by blast
      have "e = []"
      proof (cases e)
        case Nil then show ?thesis .
      next
        case (Cons b e')
        then have "b = a" using d(1) by simp
        then show ?thesis using d(3) Cons True by simp
      qed
      then show "find P (a # xs) = Some x" using d True by simp
    qed
  next
    case False
    show ?thesis
    proof
      assume "find P (a # xs) = Some x"
      then have "find P xs = Some x" using False by simp
      then obtain e l where "xs = e @ x # l" "P x" "\<forall>y\<in>set e. \<not> P y" using Cons.IH by blast
      then have "a # xs = (a # e) @ x # l \<and> P x \<and> (\<forall>y\<in>set (a # e). \<not> P y)" using False by simp
      then show "\<exists>earlier later. a # xs = earlier @ x # later \<and> P x \<and> (\<forall>y\<in>set earlier. \<not> P y)"
        by blast
    next
      assume "\<exists>earlier later. a # xs = earlier @ x # later \<and> P x \<and> (\<forall>y\<in>set earlier. \<not> P y)"
      then obtain e l where d: "a # xs = e @ x # l" "P x" "\<forall>y\<in>set e. \<not> P y" by blast
      then obtain e' where e: "e = a # e'" using False by (cases e) auto
      then have "xs = e' @ x # l \<and> P x \<and> (\<forall>y\<in>set e'. \<not> P y)" using d by simp
      then have "find P xs = Some x" using Cons.IH by blast
      then show "find P (a # xs) = Some x" using False by simp
    qed
  qed
qed

lemma distinct_frameworks: "distinct (map fst frameworkIndicators)"
  by (simp add: frameworkIndicators_def)

lemma matching_framework_Some:
  "matching_framework fileName = Some fw \<longleftrightarrow> first_table_match fileName fw"
proof
  assume "matching_framework fileName = Some fw"
  then obtain inds where
    "find (entry_matches fileName) frameworkIndicators = Some (fw, inds)"
    by (auto simp: matching_framework_def entry_matches_code[abs_def])
  then show "first_table_match fileName fw"
    unfolding first_table_match_def find_Some_decomp by blast
next
  assume "first_table_match fileName fw"
  then obtain inds where
    "find (entry_matches fileName) frameworkIndicators = Some (fw, inds)"
    unfolding first_table_match_def find_Some_decomp by blast
  then show "matching_framework fileName = Some fw"
    by (simp add: matching_framework_def entry_matches_code[abs_def])
qed

lemma matching_framework_None:
  "matching_framework fileName = None \<longleftrightarrow> no_table_match fileName"
  by (auto simp: matching_framework_def no_table_match_def find_None_iff entry_matches_code[abs_def])


lemma analyze_file_framework:
  "framework (fst (analyze_file st f)) =
     (case matching_framework (toLowerCase (name f)) of
        Some fw \<Rightarrow> capitalize fw
      | None \<Rightarrow> framework (fst st))"
  by (simp add: analyze_file_def Let_def split: option.splits)

lemma foldl_analyze_no_match:
  "\<forall>g\<in>set fs. matching_framework (toLowerCase (name g)) = None \<Longrightarrow>
   framework (fst (foldl analyze_file st fs)) = framework (fst st)"
proof (induction fs arbitrary: st)
  case Nil
  show ?case by simp
next
  case (Cons g fs)
  have "framework (fst (foldl analyze_file (analyze_file st g) fs)) = framework (fst (analyze_file st g))"
    by (rule Cons.IH) (use Cons.prems in simp)
  then show ?case using Cons.prems by (simp add: analyze_file_framework)
qed

lemma analyzeRepository_framework_fold:
  "framework (analyzeRepository own rep fs) =
     framework (fst (foldl analyze_file
       (\<lparr>language = ''Unknown'', framework = ''Unknown'', fileCount = length fs,
         totalLines = 0, fileTypes = [], hasTests = False, hasDocs = False,
         hasDocker = False, hasCI = False\<rparr>, []) fs))"
  by (simp add: analyzeRepository_def Let_def split: list.splits)

text \<open>
  Claim C3, as amended. Within one file the first entry of the indicator table that
  matches the lower-cased file name decides, and later entries are not looked at. Across
  the files the last file that matches any entry decides: with no matching file the
  framework stays \<open>Unknown\<close>, and otherwise it is the capitalised first table match of
  the last matching file.
\<close>

theorem analyzeRepository_framework_last_file:
  "((\<forall>f\<in>set fs. no_table_match (toLowerCase (name f))) \<longrightarrow>
      framework (analyzeRepository own rep fs) = ''Unknown'')
   \<and> (\<forall>earlier f later fw.
        fs = earlier @ f # later
        \<and> first_table_match (toLowerCase (name f)) fw
        \<and> (\<forall>g\<in>set later. no_table_match (toLowerCase (name g))) \<longrightarrow>
        framework (analyzeRepository own rep fs) = capitalize fw)"
proof (intro conjI allI impI)
  assume "\<forall>f\<in>set fs. no_table_match (toLowerCase (name f))"
  then have "\<forall>g\<in>set fs. matching_framework (toLowerCase (name g)) = None"
    by (simp add: matching_framework_None)
  from foldl_analyze_no_match[OF this]
  show "framework (analyzeRepository own rep fs) = ''Unknown''"
    by (simp add: analyzeRepository_framework_fold)
next
  fix earlier f later fw
  assume a: "fs = earlier @ f # later
        \<and> first_table_match (toLowerCase (name f)) fw
        \<and> (\<forall>g\<in>set later. no_table_match (toLowerCase (name g)))"
  let ?init = "(\<lparr>language = ''Unknown'', framework = ''Unknown'', fileCount = length fs,
         totalLines = 0, fileTypes = [], hasTests = False, hasDocs = False,
         hasDocker = False, hasCI = False\<rparr>, [])"
  let ?st = "analyze_file (foldl analyze_file ?init earlier) f"
  have m: "matching_framework (toLowerCase (name f)) = Some fw"
    using a by (simp add: matching_framework_Some)
  have n: "\<forall>g\<in>set later. matching_framework (toLowerCase (name g)) = None"
    using a by (simp add: matching_framework_None)
  have "foldl analyze_file ?init fs = foldl analyze_file ?st later"
    using a by simp
  then have "framework (fst (foldl analyze_file ?init fs)) = framework (fst ?st)"
    using foldl_analyze_no_match[OF n, of ?st] by simp
  also have "\<dots> = capitalize fw"
    using m by (simp add: analyze_file_framework)
  finally show "framework (analyzeRepository own rep fs) = capitalize fw"
    by (simp add: analyzeRepository_framework_fold)
qed

text \<open>
  The claim as stated fails: \<open>manage.py\<close> alone gives Django, and a later \<open>pom.xml\<close>
  changes the framework to Spring.
\<close>

theorem framework_first_match_counterexample:
  "framework (analyzeRepository ''octocat'' ''demo'' [blob ''manage.py'']) = ''Django''
   \<and> framework (analyzeRepository ''octocat'' ''demo'' [blob ''manage.py'', blob ''pom.xml'']) = ''Spring''"
  by code_simp

theorem analyzeRepository_framework_last_file_witness:
  "framework (analyzeRepository ''octocat'' ''demo'' [blob ''LICENSE'', blob ''notes.txt'']) = ''Unknown''
   \<and> framework (analyzeRepository ''octocat'' ''demo'' [blob ''manage.py'', blob ''pom.xml'', blob ''notes.txt''])
       = capitalize ''spring''"
proof -
  have n: "no_table_match (toLowerCase ''notes.txt'')" "no_table_match (toLowerCase ''LICENSE'')"
    unfolding matching_framework_None[symmetric] by code_simp+
  have m: "first_table_match (toLowerCase ''pom.xml'') ''spring''"
    unfolding matching_framework_Some[symmetric] by code_simp
  have a: "framework (analyzeRepository ''octocat'' ''demo'' [blob ''LICENSE'', blob ''notes.txt'']) = ''Unknown''"
    using analyzeRepository_framework_last_file[of "[blob ''LICENSE'', blob ''notes.txt'']" "''octocat''" "''demo''"] n
    by (simp add: blob_def)
  have b: "framework (analyzeRepository ''octocat'' ''demo'' [blob ''manage.py'', blob ''pom.xml'', blob ''notes.txt''])
       = capitalize ''spring''"
    using analyzeRepository_framework_last_file[of "[blob ''manage.py'', blob ''pom.xml'', blob ''notes.txt'']"
        "''octocat''" "''demo''", THEN conjunct2, rule_format,
        of "[blob ''manage.py'']" "blob ''pom.xml''" "[blob ''notes.txt'']" "''spring''"] n m
    by (simp add: blob_def)
  show ?thesis using a b by simp
qed

lemma analyze_file_counts:
  "snd (analyze_file st f) =
     (case ext_language (toLowerCase (extname (name f))) of
        Some l \<Rightarrow> count_up (snd st) l | None \<Rightarrow> snd st)"
  by (simp add: analyze_file_def Let_def)

lemma analyze_file_language: "language (fst (analyze_file st f)) = language (fst st)"
  by (simp add: analyze_file_def Let_def split: option.splits)

lemma foldl_analyze_language: "language (fst (foldl analyze_file st fs)) = language (fst st)"
  by (induction fs arbitrary: st) (simp_all add: analyze_file_language)

lemma foldl_analyze_counts:
  "snd (foldl analyze_file st fs) = foldl count_up (snd st) (recognised fs)"
proof (induction fs arbitrary: st)
  case Nil
  show ?case by (simp add: recognised_def map_filter_simps)
next
  case (Cons f fs)
  show ?case
    by (simp add: Cons.IH analyze_file_counts recognised_def map_filter_simps split: option.splits)
qed

lemma count_up_map:
  "distinct ks \<Longrightarrow>
   count_up (map (\<lambda>k. (k, c k)) ks) x =
     (if x \<in> set ks then map (\<lambda>k. (k, if k = x then c k + 1 else c k)) ks
      else map (\<lambda>k. (k, c k)) ks @ [(x, 1)])"
  by (induction ks) auto

lemma first_occ_snoc:
  "first_occ (xs @ [x]) = (if x \<in> set xs then first_occ xs else first_occ xs @ [x])"
  by (simp add: first_occ_def)

lemma distinct_first_occ: "distinct (first_occ ls)"
  by (simp add: first_occ_def)

lemma set_first_occ: "set (first_occ ls) = set ls"
  by (simp add: first_occ_def)

lemma foldl_count_up:
  "foldl count_up [] ls = map (\<lambda>k. (k, count_list ls k)) (first_occ ls)"
proof (induction ls rule: rev_induct)
  case Nil
  show ?case by (simp add: first_occ_def)
next
  case (snoc x xs)
  have "foldl count_up [] (xs @ [x]) = count_up (map (\<lambda>k. (k, count_list xs k)) (first_occ xs)) x"
    by (simp add: snoc.IH)
  also have "\<dots> = map (\<lambda>k. (k, count_list (xs @ [x]) k)) (first_occ (xs @ [x]))"
  proof (cases "x \<in> set xs")
    case True
    then show ?thesis
      by (simp add: count_up_map[OF distinct_first_occ] set_first_occ first_occ_snoc)
  next
    case False
    then have "count_list xs x = 0" by (simp add: count_list_0_iff)
    then show ?thesis using False
      by (auto simp: count_up_map[OF distinct_first_occ] set_first_occ first_occ_snoc)
  qed
  finally show ?case .
qed

lemma remdups_append_filter:
  "remdups (xs @ ys) = filter (\<lambda>x. x \<notin> set ys) (remdups xs) @ remdups ys"
  by (induction xs) auto

lemma first_occ_append:
  "first_occ (a @ b) = first_occ a @ filter (\<lambda>x. x \<notin> set a) (first_occ b)"
  by (simp add: first_occ_def remdups_append_filter rev_filter)

lemma first_occ_split:
  assumes "l \<notin> set before"
  shows "\<exists>rest. first_occ (before @ l # after) = first_occ before @ l # rest"
proof -
  have "first_occ (l # after) = first_occ ([l] @ after)" by simp
  also have "\<dots> = [l] @ filter (\<lambda>x. x \<notin> set [l]) (first_occ after)"
    unfolding first_occ_append by (simp add: first_occ_def)
  finally have "first_occ (l # after) = l # filter (\<lambda>x. x \<noteq> l) (first_occ after)" by simp
  then show ?thesis using assms by (simp add: first_occ_append[of before])
qed

lemma insert_by_hd:
  "hd (insert_by cmp x ys) = (if ys = [] then x else if cmp x (hd ys) \<le> 0 then x else hd ys)"
  by (cases ys) auto

lemma insert_by_not_Nil: "insert_by cmp x ys \<noteq> []"
  by (cases ys) auto

lemma sort_by_Cons: "sort_by cmp (x # xs) = insert_by cmp x (sort_by cmp xs)"
  by (simp add: sort_by_def)

lemma sort_by_Nil_iff: "sort_by cmp xs = [] \<longleftrightarrow> xs = []"
  by (cases xs) (simp_all add: sort_by_def insert_by_not_Nil)

lemma sort_by_count_hd:
  "xs \<noteq> [] \<Longrightarrow>
   \<exists>e l. xs = e @ hd (sort_by by_count_desc xs) # l
     \<and> (\<forall>y\<in>set e. snd y < snd (hd (sort_by by_count_desc xs)))
     \<and> (\<forall>y\<in>set l. snd y \<le> snd (hd (sort_by by_count_desc xs)))"
proof (induction xs)
  case Nil
  then show ?case by simp
next
  case (Cons x xs)
  show ?case
  proof (cases "xs = []")
    case True
    then have "hd (sort_by by_count_desc (x # xs)) = x" by (simp add: sort_by_def)
    then have "x # xs = [] @ hd (sort_by by_count_desc (x # xs)) # []" using True by simp
    then show ?thesis by (metis empty_iff list.set(1))
  next
    case False
    let ?h' = "hd (sort_by by_count_desc xs)"
    from Cons.IH[OF False] obtain e l where d: "xs = e @ ?h' # l"
      "\<forall>y\<in>set e. snd y < snd ?h'" "\<forall>y\<in>set l. snd y \<le> snd ?h'" by blast
    have ne: "sort_by by_count_desc xs \<noteq> []" using False by (simp add: sort_by_Nil_iff)
    show ?thesis
    proof (cases "snd ?h' \<le> snd x")
      case True
      then have h: "hd (sort_by by_count_desc (x # xs)) = x"
        using ne by (simp add: sort_by_Cons insert_by_hd by_count_desc_def)
      have "\<forall>y\<in>set xs. snd y \<le> snd x"
      proof
        fix y assume "y \<in> set xs"
        then have "y \<in> set e \<or> y = ?h' \<or> y \<in> set l" using d(1)
          by (metis Un_iff insert_iff list.set(2) set_append)
        then show "snd y \<le> snd x" using d(2,3) True by auto
      qed
      then have "x # xs = [] @ x # xs \<and> (\<forall>y\<in>set []. snd y < snd x) \<and> (\<forall>y\<in>set xs. snd y \<le> snd x)"
        by simp
      then show ?thesis unfolding h by blast
    next
      case False
      then have h: "hd (sort_by by_count_desc (x # xs)) = ?h'"
        using ne by (simp add: sort_by_Cons insert_by_hd by_count_desc_def)
      have "x # xs = (x # e) @ ?h' # l \<and> (\<forall>y\<in>set (x # e). snd y < snd ?h')
          \<and> (\<forall>y\<in>set l. snd y \<le> snd ?h')"
        using d False by auto
      then show ?thesis unfolding h by blast
    qed
  qed
qed


lemma takeWhile_before:
  "k \<notin> set xs \<Longrightarrow> takeWhile (\<lambda>x. x \<noteq> k) (xs @ k # ys) = xs"
  by (induction xs) auto

lemma distinct_split_unique:
  assumes "distinct (xs @ k # ys)" "xs @ k # ys = xs' @ k # ys'"
  shows "xs = xs'"
proof -
  have "k \<notin> set xs" using assms(1) by simp
  moreover have "k \<notin> set xs'" using assms by (metis distinct_append distinct.simps(2) disjoint_iff list.set_intros(1))
  ultimately show ?thesis using assms(2) by (metis takeWhile_before)
qed

lemma most_frequent_of_counts:
  assumes "ls \<noteq> []"
  shows "most_frequent_first ls (fst (hd (sort_by by_count_desc (foldl count_up [] ls))))"
proof -
  let ?g = "\<lambda>k. (k, count_list ls k)"
  let ?counts = "map ?g (first_occ ls)"
  let ?h = "hd (sort_by by_count_desc ?counts)"
  have "set (first_occ ls) \<noteq> {}" using assms by (simp add: set_first_occ)
  then have ne: "?counts \<noteq> []" by auto
  from sort_by_count_hd[OF ne] obtain e l where d: "?counts = e @ ?h # l"
    "\<forall>y\<in>set e. snd y < snd ?h" "\<forall>y\<in>set l. snd y \<le> snd ?h" by blast
  from d(1) obtain ek k lk where m: "first_occ ls = ek @ k # lk" "e = map ?g ek" "?h = ?g k" "l = map ?g lk"
    by (auto simp: map_eq_append_conv map_eq_Cons_conv)
  have k: "fst ?h = k" "snd ?h = count_list ls k" using m(3) by simp_all
  have "k \<in> set ls" using m(1) set_first_occ[of ls] by (metis in_set_conv_decomp)
  then obtain before after where sp: "ls = before @ k # after" "k \<notin> set before"
    by (meson split_list_first)
  from first_occ_split[OF sp(2), of after] obtain rest where
    fo: "first_occ ls = first_occ before @ k # rest" using sp(1) by auto
  have "distinct (ek @ k # lk)" using distinct_first_occ[of ls] m(1) by simp
  then have ek: "ek = first_occ before" using m(1) fo by (metis distinct_split_unique)
  have b: "\<forall>x\<in>set before. count_list ls x < count_list ls k"
  proof
    fix x assume "x \<in> set before"
    then have "x \<in> set ek" by (simp add: ek set_first_occ)
    then have "?g x \<in> set e" using m(2) by simp
    then show "count_list ls x < count_list ls k" using d(2) k(2) by fastforce
  qed
  have a: "\<forall>x\<in>set after. count_list ls x \<le> count_list ls k"
  proof
    fix x assume "x \<in> set after"
    then have "x \<in> set (first_occ ls)" using sp(1) by (simp add: set_first_occ)
    then have "x \<in> set ek \<or> x = k \<or> x \<in> set lk" using m(1) by auto
    then show "count_list ls x \<le> count_list ls k"
    proof (elim disjE)
      assume "x \<in> set ek"
      then have "?g x \<in> set e" using m(2) by simp
      then show ?thesis using d(2) k(2) by fastforce
    next
      assume "x = k" then show ?thesis by simp
    next
      assume "x \<in> set lk"
      then have "?g x \<in> set l" using m(4) by simp
      then show ?thesis using d(3) k(2) by fastforce
    qed
  qed
  have "most_frequent_first ls k"
    unfolding most_frequent_first_def using sp a b by blast
  then show ?thesis using k(1) by (simp add: foldl_count_up)
qed

lemma analyzeRepository_language:
  "(recognised fs = [] \<longrightarrow> language (analyzeRepository own rep fs) = ''Unknown'')
   \<and> (recognised fs \<noteq> [] \<longrightarrow>
        most_frequent_first (recognised fs) (language (analyzeRepository own rep fs)))"
proof -
  let ?init = "(\<lparr>language = ''Unknown'', framework = ''Unknown'', fileCount = length fs,
         totalLines = 0, fileTypes = [], hasTests = False, hasDocs = False,
         hasDocker = False, hasCI = False\<rparr>, [])"
  let ?st = "foldl analyze_file ?init fs"
  have c: "snd ?st = foldl count_up [] (recognised fs)"
    by (simp add: foldl_analyze_counts)
  have l: "language (fst ?st) = ''Unknown''"
    by (simp add: foldl_analyze_language)
  have r: "language (analyzeRepository own rep fs) =
      (case sort_by by_count_desc (snd ?st) of [] \<Rightarrow> ''Unknown'' | first # others \<Rightarrow> fst first)"
    using l by (simp add: analyzeRepository_def Let_def split: list.splits)
  show ?thesis
  proof (intro conjI impI)
    assume "recognised fs = []"
    then show "language (analyzeRepository own rep fs) = ''Unknown''"
      unfolding r c by (simp add: sort_by_def)
  next
    assume ne: "recognised fs \<noteq> []"
    have "foldl count_up [] (recognised fs) \<noteq> []"
      using ne by (simp add: foldl_count_up first_occ_def)
    then have "sort_by by_count_desc (snd ?st) \<noteq> []" by (simp add: c sort_by_Nil_iff)
    then have "language (analyzeRepository own rep fs) = fst (hd (sort_by by_count_desc (snd ?st)))"
      unfolding r by (cases "sort_by by_count_desc (snd ?st)") simp_all
    then show "most_frequent_first (recognised fs) (language (analyzeRepository own rep fs))"
      using most_frequent_of_counts[OF ne] by (simp add: c)
  qed
qed


lemma getRepositoryData_Inr:
  assumes "getRepositoryData lib api repoUrl = Inr res"
  obtains p info where "parseGitHubUrl repoUrl = Inr p"
    and "getRepoInfo api (owner p) (repo p) = Inr info"
    and "files res = getRepoFiles lib api (owner p) (repo p) (branch p)"
    and "readme res = getReadmeContent lib api (owner p) (repo p) (branch p)"
    and "packageJson res = getPackageJson lib api (owner p) (repo p) (branch p)"
    and "repoInfo res = info"
    and "language (metadata res) = language (analyzeRepository (owner p) (repo p) (files res))"
    and "framework (metadata res) = framework (analyzeRepository (owner p) (repo p) (files res))"
  using assms unfolding getRepositoryData_def Let_def
  by (auto split: sum.splits)

text \<open>
  Claim C2, as amended. The derived language never comes from the declared primary
  language. Whatever the repository metadata declares, the language of the analysis is
  the most frequent language over the file extensions, the first encountered on a tie,
  and \<open>Unknown\<close> when no extension is recognised; the declared value is handed on
  unchanged as the \<open>language\<close> of \<open>repoInfo\<close>.
\<close>

theorem getRepositoryData_language:
  assumes "getRepositoryData lib api repoUrl = Inr res"
  shows "(recognised (files res) = [] \<longrightarrow> language (metadata res) = ''Unknown'')
   \<and> (recognised (files res) \<noteq> [] \<longrightarrow>
        most_frequent_first (recognised (files res)) (language (metadata res)))
   \<and> (\<forall>p d. parseGitHubUrl repoUrl = Inr p \<and> get_repo api (owner p) (repo p) = Inr d \<longrightarrow>
        info_language (repoInfo res) = d_language d)"
proof -
  from assms obtain p info where g: "parseGitHubUrl repoUrl = Inr p"
    "getRepoInfo api (owner p) (repo p) = Inr info" "repoInfo res = info"
    "language (metadata res) = language (analyzeRepository (owner p) (repo p) (files res))"
    by (rule getRepositoryData_Inr)
  have "info_language (repoInfo res) = d_language d"
    if "parseGitHubUrl repoUrl = Inr p' \<and> get_repo api (owner p') (repo p') = Inr d" for p' d
  proof -
    have "p' = p" using that g(1) by simp
    then have "get_repo api (owner p) (repo p) = Inr d" using that by simp
    then have "info_language info = d_language d"
      using g(2) by (auto simp: getRepoInfo_def)
    then show ?thesis using g(3) by simp
  qed
  then have "\<forall>p' d. parseGitHubUrl repoUrl = Inr p' \<and> get_repo api (owner p') (repo p') = Inr d \<longrightarrow>
        info_language (repoInfo res) = d_language d"
    by blast
  then show ?thesis
    using analyzeRepository_language[of "files res" "owner p" "repo p"] g(4) by simp
qed

text \<open>
  The claim as stated fails: a repository that declares TypeScript and holds the one
  file \<open>main.py\<close> gets the derived language Python.
\<close>

theorem declared_language_counterexample:
  "(case getRepositoryData example_lib (example_api (Some ''TypeScript'') [''main.py''])
           ''https://github.com/octocat/demo'' of
      Inl e \<Rightarrow> False
    | Inr res \<Rightarrow> info_language (repoInfo res) = Some ''TypeScript''
                 \<and> language (metadata res) = ''Python'')"
  by code_simp

theorem getRepositoryData_language_witness:
  "\<exists>res. getRepositoryData example_lib (example_api (Some ''TypeScript'') [''c.py'', ''b.js'', ''a.py''])
            ''https://github.com/octocat/demo'' = Inr res
     \<and> most_frequent_first [''Python'', ''JavaScript'', ''Python''] (language (metadata res))
     \<and> info_language (repoInfo res) = Some ''TypeScript''"
proof -
  let ?api = "example_api (Some ''TypeScript'') [''c.py'', ''b.js'', ''a.py'']"
  let ?G = "getRepositoryData example_lib ?api ''https://github.com/octocat/demo''"
  have "case ?G of Inl e \<Rightarrow> False | Inr res \<Rightarrow> True" by code_simp
  then obtain res where r: "?G = Inr res" by (cases ?G) auto
  have "recognised (files (projr ?G)) = [''Python'', ''JavaScript'', ''Python'']" by code_simp
  then have f: "recognised (files res) = [''Python'', ''JavaScript'', ''Python'']" using r by simp
  have p: "parseGitHubUrl ''https://github.com/octocat/demo''
      = Inr \<lparr>owner = ''octocat'', repo = ''demo'', branch = ''main''\<rparr>" by code_simp
  have d: "get_repo ?api ''octocat'' ''demo'' = Inr (example_repo (Some ''TypeScript''))"
    by (simp add: example_api_def)
  have "most_frequent_first [''Python'', ''JavaScript'', ''Python''] (language (metadata res))
     \<and> info_language (repoInfo res) = Some ''TypeScript''"
    using getRepositoryData_language[OF r] f p d by (simp add: example_repo_def)
  then show ?thesis using r by blast
qed

text \<open>
  The failures of \<open>getRepositoryData\<close> of the service module. When the repository
  request is rejected, with whatever status, it fails with the one message
  \<open>Failed to fetch repository data: Failed to fetch repository information\<close>. When it
  succeeds the analysis succeeds: a rejected tree request leaves the file list empty,
  and a rejected README or manifest request leaves that field \<open>null\<close>.
\<close>

lemma getRepositoryData_failures:
  assumes "parseGitHubUrl repoUrl = Inr p"
  shows "(\<forall>e. get_repo api (owner p) (repo p) = Inl e \<longrightarrow>
            getRepositoryData lib api repoUrl
              = Inl (Error ''Failed to fetch repository data: Failed to fetch repository information''))
   \<and> (\<forall>d. get_repo api (owner p) (repo p) = Inr d \<longrightarrow>
        (\<exists>res. getRepositoryData lib api repoUrl = Inr res
           \<and> ((\<exists>e. get_tree api (owner p) (repo p) (branch p) = Inl e) \<longrightarrow> files res = [])
           \<and> ((\<exists>e. get_readme api (owner p) (repo p) = Inl e) \<longrightarrow> readme res = None)
           \<and> ((\<exists>e. get_package api (owner p) (repo p) (branch p) = Inl e) \<longrightarrow>
                 packageJson res = None)))"
proof (intro conjI allI impI)
  fix e assume "get_repo api (owner p) (repo p) = Inl e"
  then show "getRepositoryData lib api repoUrl
      = Inl (Error ''Failed to fetch repository data: Failed to fetch repository information'')"
    using assms by (simp add: getRepositoryData_def getRepoInfo_def wrap_error_def)
next
  fix d assume "get_repo api (owner p) (repo p) = Inr d"
  then obtain info where i: "getRepoInfo api (owner p) (repo p) = Inr info"
    by (simp add: getRepoInfo_def)
  then obtain res where r: "getRepositoryData lib api repoUrl = Inr res"
    using assms by (simp add: getRepositoryData_def Let_def)
  from r obtain p' where p': "parseGitHubUrl repoUrl = Inr p'"
    "files res = getRepoFiles lib api (owner p') (repo p') (branch p')"
    "readme res = getReadmeContent lib api (owner p') (repo p') (branch p')"
    "packageJson res = getPackageJson lib api (owner p') (repo p') (branch p')"
    by (rule getRepositoryData_Inr)
  then have "p' = p" using assms by simp
  then have "((\<exists>e. get_tree api (owner p) (repo p) (branch p) = Inl e) \<longrightarrow> files res = [])
           \<and> ((\<exists>e. get_readme api (owner p) (repo p) = Inl e) \<longrightarrow> readme res = None)
           \<and> ((\<exists>e. get_package api (owner p) (repo p) (branch p) = Inl e) \<longrightarrow>
                 packageJson res = None)"
    using p' by (auto simp: getRepoFiles_def getReadmeContent_def getPackageJson_def)
  then show "\<exists>res. getRepositoryData lib api repoUrl = Inr res
           \<and> ((\<exists>e. get_tree api (owner p) (repo p) (branch p) = Inl e) \<longrightarrow> files res = [])
           \<and> ((\<exists>e. get_readme api (owner p) (repo p) = Inl e) \<longrightarrow> readme res = None)
           \<and> ((\<exists>e. get_package api (owner p) (repo p) (branch p) = Inl e) \<longrightarrow>
                 packageJson res = None)"
    using r by blast
qed

text \<open>
  For example, the statuses 404, 403, 401 and 500 give the same message, and a rejected
  tree request gives a success with no files.
\<close>

lemma getRepositoryData_failures_example:
  "getRepositoryData example_lib (failing_api 404) ''https://github.com/octocat/demo''
     = Inl (Error ''Failed to fetch repository data: Failed to fetch repository information'')
   \<and> getRepositoryData example_lib (failing_api 403) ''https://github.com/octocat/demo''
     = Inl (Error ''Failed to fetch repository data: Failed to fetch repository information'')
   \<and> getRepositoryData example_lib (failing_api 401) ''https://github.com/octocat/demo''
     = Inl (Error ''Failed to fetch repository data: Failed to fetch repository information'')
   \<and> getRepositoryData example_lib (failing_api 500) ''https://github.com/octocat/demo''
     = Inl (Error ''Failed to fetch repository data: Failed to fetch repository information'')
   \<and> (case getRepositoryData example_lib (tree_failing_api 404) ''https://github.com/octocat/demo'' of
        Inl e \<Rightarrow> False
      | Inr res \<Rightarrow> files res = [] \<and> readme res = None \<and> packageJson res = None)"
  by code_simp

section \<open>Properties of the OpenRouter service\<close>

text \<open>
  What the prompt builder does with absent fields. With no manifest it returns a
  prompt, whose manifest segment is empty; with no README the README segment is empty,
  and the result is an error only when the conversion of the manifest to text throws.
\<close>

lemma buildDocumentationPrompt_absent_fields:
  "(packageJson rd = None \<longrightarrow>
      buildDocumentationPrompt rt rd fmt sty
        = Inr (prompt_intro rd fmt sty @ readme_segment (readme rd) @ ''\<newline>\<newline>''
               @ prompt_rest rt rd fmt))
   \<and> (readme rd = None \<longrightarrow>
      buildDocumentationPrompt rt rd fmt sty
        = map_sum (\<lambda>e. e)
            (\<lambda>package_text. prompt_intro rd fmt sty @ ''\<newline>'' @ package_text @ ''\<newline>''
                              @ prompt_rest rt rd fmt)
            (package_segment (packageJson rd)))
   \<and> (readme rd = None \<and> packageJson rd = None \<longrightarrow>
      buildDocumentationPrompt rt rd fmt sty
        = Inr (prompt_intro rd fmt sty @ ''\<newline>\<newline>'' @ prompt_rest rt rd fmt))"
  by (auto simp: buildDocumentationPrompt_def package_segment_def readme_segment_def
      split: sum.splits option.splits)

lemma package_segment_throws_iff:
  "(\<exists>e. package_segment pj = Inl e) \<longleftrightarrow> (\<exists>j. pj = Some j \<and> js_truthy j \<and> (\<exists>e. js_String j = Inl e))"
  by (auto simp: package_segment_def split: option.splits sum.splits)

text \<open>
  Claim C8 at an analyzer output with no README whose manifest has a key \<open>toString\<close>:
  the template literal cannot convert the manifest to text, and the prompt builder
  throws instead of returning a prompt.
\<close>

theorem buildDocumentationPrompt_throws_on_toString_manifest:
  "buildDocumentationPrompt example_text
      (example_repoData None (Some (JObject [(''name'', JString ''demo''), (''toString'', JString ''x'')])))
      ''markdown'' ''professional''
     = Inl (Error ''Cannot convert object to primitive value'')"
  by code_simp

lemma buildDocumentationPrompt_example:
  "buildDocumentationPrompt example_text (example_repoData None None) ''markdown'' ''professional''
     = Inr (''Generate comprehensive professional documentation for this GitHub repository in MARKDOWN format.\<newline>\<newline>Repository Information:\<newline>- Name: demo\<newline>- Owner: octocat\<newline>- Language: Python\<newline>- Framework: Django\<newline>- Total Files: 1\<newline>- Total Lines: 0\<newline>\<newline>\<newline>\<newline>\<newline>Key Files Structure:\<newline>- manage.py [Python]''
            @ prompt_sections @ ''MARKDOWN'' @ prompt_closing)"
  by code_simp

lemma chat_request_model: "body_model (req_body (chat_request svc opts prompt)) = requested_model opts"
  by (simp add: chat_request_def requested_model_def default_model_def Let_def split: option.splits)

text \<open>
  The generation client of the service module has no list of models. The request it
  posts carries the model identifier of the options as it is, recognised or not, and
  the default only when the options carry none: the outcome depends on the upstream
  only through its answer to requests for that very model, and a successful result
  reports that model.
\<close>

lemma generateDocumentation_model_passed_on:
  "(\<forall>post post'.
      (\<forall>req. body_model (req_body req) = requested_model opts \<longrightarrow> post req = post' req) \<longrightarrow>
      generateDocumentation svc rt post rd opts = generateDocumentation svc rt post' rd opts)
   \<and> (\<forall>post g. generateDocumentation svc rt post rd opts = Inr g \<longrightarrow>
         gen_model g = requested_model opts)"
proof (intro conjI allI impI)
  fix post post' :: "stream_chat_body request \<Rightarrow> http_error + 'a chat_data"
  assume a: "\<forall>req. body_model (req_body req) = requested_model opts \<longrightarrow> post req = post' req"
  have "post (chat_request svc opts prompt) = post' (chat_request svc opts prompt)" for prompt
    using a chat_request_model by blast
  then show "generateDocumentation svc rt post rd opts = generateDocumentation svc rt post' rd opts"
    by (simp add: generateDocumentation_def Let_def split: sum.splits)
next
  fix post :: "stream_chat_body request \<Rightarrow> http_error + 'b chat_data" and g
  assume "generateDocumentation svc rt post rd opts = Inr g"
  then show "gen_model g = requested_model opts"
    by (auto simp: generateDocumentation_def Let_def chat_request_model
        split: sum.splits list.splits)
qed

text \<open>
  For example, \<open>not-a-real-model\<close> is sent upstream, and an upstream that rejects it
  makes the generation fail, where the same upstream serves a request with no model
  given.
\<close>

lemma generateDocumentation_unknown_model_example:
  "generateDocumentation example_svc example_text strict_upstream (example_repoData None None)
      (no_options\<lparr>model := Some ''not-a-real-model''\<rparr>)
     = Inl (Error ''AI generation failed: not-a-real-model is not a valid model ID'')
   \<and> generateDocumentation example_svc example_text strict_upstream (example_repoData None None)
      no_options
     = Inr \<lparr>gen_content = ''# demo'', gen_model = ''anthropic/claude-3.5-sonnet'', usage = (),
            finishReason = ''stop''\<rparr>"
  by code_simp

text \<open>
  The model listing of the service module has no default list. When the catalog query
  succeeds the result is the catalog filtered, in order, to the entries whose
  identifier contains \<open>claude\<close>, \<open>gpt\<close> or \<open>gemini\<close>; when the query fails, or the
  answer holds no catalog, the result is the empty list and no error is raised.
\<close>

lemma getAvailableModels_filter_or_empty:
  "(\<forall>e. get (models_request svc) = Inl e \<longrightarrow> getAvailableModels svc get = [])
   \<and> (get (models_request svc) = Inr \<lparr>catalog = None\<rparr> \<longrightarrow> getAvailableModels svc get = [])
   \<and> (\<forall>entries. get (models_request svc) = Inr \<lparr>catalog = Some entries\<rparr> \<longrightarrow>
         getAvailableModels svc get = filter (\<lambda>m. listed_name (model_id m)) entries)"
  by (auto simp: getAvailableModels_def models_request_def listed_name_def includes_str_occurs
      intro!: filter_cong)

lemma getAvailableModels_rejected_example:
  "getAvailableModels example_svc (\<lambda>req. Inl (rejected 500)) = ([] :: model_entry list)"
  by code_simp

section \<open>Properties of the stand-alone server\<close>

subsection \<open>Repository analysis\<close>



lemma server_analyzeRepository_invalid:
  "server_regexp_match repoUrl = None \<Longrightarrow>
   server_analyzeRepository lib api repoUrl = Inl (Error (user_message UpstreamError))"
  by (simp add: server_analyzeRepository_def try_analyze_def analysis_error_def response_status_def)

lemma server_optional_requests:
  "readme_request api own rep = Inl e \<Longrightarrow> server_readme lib api own rep = []"
  "package_request api own rep = Inl e \<Longrightarrow> server_package lib api own rep = JNull"
  by (simp_all add: server_readme_def server_package_def)




lemma server_analyzeRepository_example:
  "(case server_analyzeRepository example_json_lib (listing_api [''manage.py'', ''README.md''])
           ''https://github.com/octocat/demo'' of
      Inl e \<Rightarrow> False
    | Inr res \<Rightarrow> s_repoName (s_metadata res) = ''demo'' \<and> s_repoOwner (s_metadata res) = ''octocat''
                 \<and> s_language (s_metadata res) = ''Python'' \<and> map f_name (s_files res) = [''manage.py'', ''README.md'']
                 \<and> s_readme res = [] \<and> s_packageJson res = JNull)"
  by code_simp

lemma server_analyzeRepository_inherited_name:
  "(case server_analyzeRepository example_json_lib (listing_api [''manage.py'', ''constructor''])
           ''https://github.com/octocat/demo'' of
      Inl e \<Rightarrow> e = Error ''Failed to analyze repository. Please check the URL and try again.''
    | Inr res \<Rightarrow> False)"
  by code_simp

subsection \<open>Generation client\<close>

lemma selectedModel_unlisted:
  "model opts = Some m \<Longrightarrow> m \<notin> set reliableModels \<Longrightarrow> selectedModel opts = ''openai/gpt-3.5-turbo''"
  by (simp add: selectedModel_def)

lemma selectedModel_listed:
  "model opts = Some m \<Longrightarrow> m \<in> set reliableModels \<Longrightarrow> selectedModel opts = m"
  by (auto simp: selectedModel_def reliableModels_def)

lemma selectedModel_absent: "model opts = None \<Longrightarrow> selectedModel opts = ''openai/gpt-3.5-turbo''"
  by (simp add: selectedModel_def)

lemma server_chat_request_cong:
  "selectedModel opts = selectedModel opts' \<Longrightarrow> temperature opts = temperature opts' \<Longrightarrow>
   maxTokens opts = maxTokens opts' \<Longrightarrow>
   server_chat_request svc opts prompt = server_chat_request svc opts' prompt"
  by (simp add: server_chat_request_def)

lemma server_buildDocumentationPrompt_options:
  "server_buildDocumentationPrompt rd opts = server_buildDocumentationPrompt rd opts'"
  by (simp add: server_buildDocumentationPrompt_def)

lemma server_generateDocumentation_cong:
  assumes "selectedModel opts = selectedModel opts'" "temperature opts = temperature opts'"
    "maxTokens opts = maxTokens opts'"
  shows "server_generateDocumentation svc post rd opts = server_generateDocumentation svc post rd opts'"
proof -
  have "server_chat_request svc opts prompt = server_chat_request svc opts' prompt" for prompt
    using assms by (rule server_chat_request_cong)
  then show ?thesis
    using server_buildDocumentationPrompt_options[of rd opts opts']
    by (simp add: server_generateDocumentation_def split: sum.splits list.splits)
qed

lemma server_generateDocumentation_requests:
  "server_buildDocumentationPrompt rd opts = Inr prompt \<Longrightarrow>
   snd (server_generateDocumentation svc post rd opts) = [server_chat_request svc opts prompt]"
  "server_buildDocumentationPrompt rd opts = Inl e \<Longrightarrow>
   snd (server_generateDocumentation svc post rd opts) = []"
  by (simp_all add: server_generateDocumentation_def split: sum.splits list.splits)

lemma server_generateDocumentation_answer:
  "server_buildDocumentationPrompt rd opts = Inr prompt \<Longrightarrow>
   post (server_chat_request svc opts prompt) = Inr data \<Longrightarrow> choices data = c # cs \<Longrightarrow>
   fst (server_generateDocumentation svc post rd opts)
     = Inr \<lparr>gen_content = choice_content c, gen_model = data_model data,
            usage = data_usage data, finishReason = finish_reason c\<rparr>"
  by (simp add: server_generateDocumentation_def)

text \<open>
  Claim C4. When the options carry a model identifier that is not in the list of
  reliable models, the generation goes as it does for the default model
  \<open>openai/gpt-3.5-turbo\<close>: the result and the requests posted are those of a call that
  asks for the default model, every request posted carries the default model and not
  the identifier of the options, one request is posted whenever the prompt is built,
  and the answer of the upstream to it is the result of the generation.
\<close>

theorem server_generateDocumentation_default_model:
  assumes "model opts = Some m" and "m \<notin> set reliableModels"
  shows "server_generateDocumentation svc post rd opts
           = server_generateDocumentation svc post rd (opts\<lparr>model := Some ''openai/gpt-3.5-turbo''\<rparr>)
   \<and> (\<forall>req\<in>set (snd (server_generateDocumentation svc post rd opts)).
          body_model (req_body req) = ''openai/gpt-3.5-turbo'' \<and> body_model (req_body req) \<noteq> m)
   \<and> (\<forall>prompt. server_buildDocumentationPrompt rd opts = Inr prompt \<longrightarrow>
          snd (server_generateDocumentation svc post rd opts)
            = [server_chat_request svc (opts\<lparr>model := Some ''openai/gpt-3.5-turbo''\<rparr>) prompt])
   \<and> (\<forall>prompt data c cs.
          server_buildDocumentationPrompt rd opts = Inr prompt
          \<and> post (server_chat_request svc (opts\<lparr>model := Some ''openai/gpt-3.5-turbo''\<rparr>) prompt) = Inr data
          \<and> choices data = c # cs \<longrightarrow>
          fst (server_generateDocumentation svc post rd opts)
            = Inr \<lparr>gen_content = choice_content c, gen_model = data_model data,
                   usage = data_usage data, finishReason = finish_reason c\<rparr>)"
proof -
  let ?d = "opts\<lparr>model := Some ''openai/gpt-3.5-turbo''\<rparr>"
  have s: "selectedModel opts = ''openai/gpt-3.5-turbo''"
    using assms by (rule selectedModel_unlisted)
  have s': "selectedModel ?d = ''openai/gpt-3.5-turbo''"
    by (simp add: selectedModel_def reliableModels_def)
  have r: "server_chat_request svc opts prompt = server_chat_request svc ?d prompt" for prompt
    using s s' by (simp add: server_chat_request_cong)
  have 1: "server_generateDocumentation svc post rd opts = server_generateDocumentation svc post rd ?d"
    using s s' by (simp add: server_generateDocumentation_cong)
  have m: "m \<noteq> ''openai/gpt-3.5-turbo''"
    using assms(2) by (auto simp: reliableModels_def)
  have 2: "\<forall>req\<in>set (snd (server_generateDocumentation svc post rd opts)).
          body_model (req_body req) = ''openai/gpt-3.5-turbo'' \<and> body_model (req_body req) \<noteq> m"
  proof (cases "server_buildDocumentationPrompt rd opts")
    case (Inl e)
    then show ?thesis by (simp add: server_generateDocumentation_requests)
  next
    case (Inr prompt)
    have "body_model (req_body (server_chat_request svc opts prompt)) = ''openai/gpt-3.5-turbo''"
      using s by (simp add: server_chat_request_def)
    then show ?thesis using Inr m by (simp add: server_generateDocumentation_requests)
  qed
  have 3: "\<forall>prompt. server_buildDocumentationPrompt rd opts = Inr prompt \<longrightarrow>
          snd (server_generateDocumentation svc post rd opts) = [server_chat_request svc ?d prompt]"
    using r by (simp add: server_generateDocumentation_requests)
  have 4: "\<forall>prompt data c cs.
          server_buildDocumentationPrompt rd opts = Inr prompt
          \<and> post (server_chat_request svc ?d prompt) = Inr data \<and> choices data = c # cs \<longrightarrow>
          fst (server_generateDocumentation svc post rd opts)
            = Inr \<lparr>gen_content = choice_content c, gen_model = data_model data,
                   usage = data_usage data, finishReason = finish_reason c\<rparr>"
    using r server_generateDocumentation_answer[of rd opts _ post svc] by auto
  show ?thesis using 1 2 3 4 by blast
qed

theorem server_generateDocumentation_default_model_witness:
  "fst (server_generateDocumentation example_client serving_upstream example_server_repoData
          (no_options\<lparr>model := Some ''not-a-real-model''\<rparr>))
     = Inr \<lparr>gen_content = ''# demo'', gen_model = ''openai/gpt-3.5-turbo'', usage = (),
            finishReason = ''stop''\<rparr>
   \<and> map (\<lambda>req. body_model (req_body req))
        (snd (server_generateDocumentation example_client serving_upstream example_server_repoData
               (no_options\<lparr>model := Some ''not-a-real-model''\<rparr>)))
     = [''openai/gpt-3.5-turbo'']"
proof -
  let ?opts = "no_options\<lparr>model := Some ''not-a-real-model''\<rparr>"
  let ?d = "?opts\<lparr>model := Some ''openai/gpt-3.5-turbo''\<rparr>"
  have a: "model ?opts = Some ''not-a-real-model''" by simp
  have b: "''not-a-real-model'' \<notin> set reliableModels" by (simp add: reliableModels_def)
  have e: "server_generateDocumentation example_client serving_upstream example_server_repoData ?opts
      = server_generateDocumentation example_client serving_upstream example_server_repoData ?d"
    using server_generateDocumentation_default_model[OF a b, of example_client serving_upstream
        example_server_repoData]
    by blast
  have v: "fst (server_generateDocumentation example_client serving_upstream example_server_repoData ?d)
     = Inr \<lparr>gen_content = ''# demo'', gen_model = ''openai/gpt-3.5-turbo'', usage = (),
            finishReason = ''stop''\<rparr>
   \<and> map (\<lambda>req. body_model (req_body req))
        (snd (server_generateDocumentation example_client serving_upstream example_server_repoData ?d))
     = [''openai/gpt-3.5-turbo'']"
    by code_simp
  show ?thesis using e v by simp
qed

lemma server_generateDocumentation_listed_model:
  "model opts = Some m \<Longrightarrow> m \<in> set reliableModels \<Longrightarrow>
   \<forall>req\<in>set (snd (server_generateDocumentation svc post rd opts)). body_model (req_body req) = m"
  by (cases "server_buildDocumentationPrompt rd opts")
    (simp_all add: server_generateDocumentation_requests server_chat_request_def
      selectedModel_listed)

subsection \<open>Model listing\<close>








end
